theory Spec2Isabelle
  imports Main "HOL-Library.Word" "HOL-Library.Sublist"
begin

unbundle bit_operations_syntax

section \<open>Plain data of the Vulkan interface\<close>

type_synonym u8 = "8 word"
type_synonym u32 = "32 word"
type_synonym handle = nat

text \<open>Handles are opaque; \<open>VK_NULL_HANDLE\<close> is the zero handle.\<close>

definition VK_NULL_HANDLE :: handle where
  "VK_NULL_HANDLE = 0"

text \<open>
  The two fields of \<open>VkOffset2D\<close> are the signed \<open>x\<close> and \<open>y\<close>, kept as their 32 bits.
\<close>

record VkOffset2D =
  off_x :: u32
  off_y :: u32

record VkExtent2D =
  width :: u32
  height :: u32

record VkRect2D =
  offset :: VkOffset2D
  extent :: VkExtent2D

text \<open>Everything that ends a run or leaves defined behaviour is a value of this type.\<close>

datatype fault =
    OutOfBounds nat
  | AssertFailed string
  | DivisionByZero
  | SignedOverflow
  | BadRead nat
  | BadHandle nat
  | FatalConfiguration

section \<open>The Vulkan device as the program sees it\<close>

text \<open>
  Values of \<open>vulkan_core.h\<close> that the sources name. \<open>VkFormat\<close> is an enumeration and the
  code compares its values as numbers; flag words are 32 bits wide.
\<close>

type_synonym VkFormat = int

definition VK_FORMAT_UNDEFINED :: VkFormat where "VK_FORMAT_UNDEFINED = 0"
definition VK_FORMAT_R8G8B8A8_UNORM :: VkFormat where "VK_FORMAT_R8G8B8A8_UNORM = 37"
definition VK_FORMAT_B8G8R8A8_UNORM :: VkFormat where "VK_FORMAT_B8G8R8A8_UNORM = 44"
definition VK_FORMAT_D16_UNORM :: VkFormat where "VK_FORMAT_D16_UNORM = 124"
definition VK_FORMAT_D32_SFLOAT :: VkFormat where "VK_FORMAT_D32_SFLOAT = 126"
definition VK_FORMAT_D16_UNORM_S8_UINT :: VkFormat where "VK_FORMAT_D16_UNORM_S8_UINT = 128"
definition VK_FORMAT_D24_UNORM_S8_UINT :: VkFormat where "VK_FORMAT_D24_UNORM_S8_UINT = 129"
definition VK_FORMAT_D32_SFLOAT_S8_UINT :: VkFormat where "VK_FORMAT_D32_SFLOAT_S8_UINT = 130"

definition VK_FORMAT_FEATURE_DEPTH_STENCIL_ATTACHMENT_BIT :: u32 where
  "VK_FORMAT_FEATURE_DEPTH_STENCIL_ATTACHMENT_BIT = 0x200"

definition VK_IMAGE_ASPECT_COLOR_BIT :: u32 where "VK_IMAGE_ASPECT_COLOR_BIT = 1"
definition VK_IMAGE_ASPECT_DEPTH_BIT :: u32 where "VK_IMAGE_ASPECT_DEPTH_BIT = 2"
definition VK_IMAGE_ASPECT_STENCIL_BIT :: u32 where "VK_IMAGE_ASPECT_STENCIL_BIT = 4"

definition VK_MEMORY_PROPERTY_DEVICE_LOCAL_BIT :: u32 where "VK_MEMORY_PROPERTY_DEVICE_LOCAL_BIT = 1"
definition VK_MEMORY_PROPERTY_HOST_VISIBLE_BIT :: u32 where "VK_MEMORY_PROPERTY_HOST_VISIBLE_BIT = 2"
definition VK_MEMORY_PROPERTY_HOST_COHERENT_BIT :: u32 where "VK_MEMORY_PROPERTY_HOST_COHERENT_BIT = 4"

definition VK_IMAGE_USAGE_TRANSFER_SRC_BIT :: u32 where "VK_IMAGE_USAGE_TRANSFER_SRC_BIT = 1"
definition VK_IMAGE_USAGE_TRANSFER_DST_BIT :: u32 where "VK_IMAGE_USAGE_TRANSFER_DST_BIT = 2"
definition VK_IMAGE_USAGE_COLOR_ATTACHMENT_BIT :: u32 where "VK_IMAGE_USAGE_COLOR_ATTACHMENT_BIT = 0x10"
definition VK_IMAGE_USAGE_DEPTH_STENCIL_ATTACHMENT_BIT :: u32 where
  "VK_IMAGE_USAGE_DEPTH_STENCIL_ATTACHMENT_BIT = 0x20"

definition VK_IMAGE_TILING_OPTIMAL :: u32 where "VK_IMAGE_TILING_OPTIMAL = 0"
definition VK_IMAGE_TILING_LINEAR :: u32 where "VK_IMAGE_TILING_LINEAR = 1"

definition VK_MAX_MEMORY_TYPES :: nat where "VK_MAX_MEMORY_TYPES = 32"

definition UINT64_MAX :: "64 word" where "UINT64_MAX = - 1"

record VkImageCreateInfo =
  ici_format :: VkFormat
  ici_extent :: VkExtent2D
  ici_tiling :: u32
  ici_usage :: u32

record VkImageViewCreateInfo =
  ivci_image :: handle
  ivci_format :: VkFormat
  ivci_aspectMask :: u32

record VkMemoryAllocateInfo =
  allocationSize :: nat
  memoryTypeIndex :: u32

record VkSubresourceLayout =
  sl_offset :: nat
  sl_rowPitch :: nat

text \<open>
  What the physical device and the driver answer when asked: the features of a format
  under optimal tiling, the table of memory types (\<open>memoryTypes\<close> is the array of
  \<open>VK_MAX_MEMORY_TYPES\<close> property words, of which the first \<open>memoryTypeCount\<close> count),
  the memory requirements of an image, the layout of a linear image, and the bytes that
  mapping a memory object shows to the host. With them stands the one fact of the build
  that the code depends on: \<open>NDEBUG\<close>, whether the program was compiled with its
  assertions removed.
\<close>

record Driver =
  optimalTilingFeatures :: "VkFormat \<Rightarrow> u32"
  memoryTypeCount :: u32
  memoryTypes :: "u32 list"
  imageMemoryTypeBits :: "VkImageCreateInfo \<Rightarrow> u32"
  imageMemorySize :: "VkImageCreateInfo \<Rightarrow> nat"
  imageSubresourceLayout :: "VkImageCreateInfo \<Rightarrow> VkSubresourceLayout"
  mappedBytes :: "handle \<Rightarrow> string"
  NDEBUG :: bool

text \<open>Every entry point the base class calls, with the handles it passes or receives.\<close>

datatype vk_call =
    GetDeviceQueue u32
  | CreateCommandPool handle
  | CreatePipelineCache handle
  | GetPhysicalDeviceFormatProperties VkFormat
  | CreateImage handle
  | DestroyImage handle
  | AllocateMemory handle
  | FreeMemory handle
  | BindImageMemory handle handle
  | CreateImageView handle
  | DestroyImageView handle
  | AllocateCommandBuffers handle
  | BeginCommandBuffer handle
  | EndCommandBuffer handle
  | FreeCommandBuffers handle
  | CmdPipelineBarrier handle handle
  | CmdCopyImage handle handle handle
  | CreateFence handle
  | QueueSubmit "handle list" handle
  | WaitForFences handle "64 word"
  | DestroyFence handle
  | QueueWaitIdle
  | MapMemory handle

text \<open>
  The state of the device: the live objects by handle, the submissions the queue has not
  completed yet (command buffer and the fence given with it), the next unused handle and
  the log of the calls made. Creation always succeeds with a new handle: the sources read
  no \<open>VkResult\<close>.
\<close>

record VkWorld =
  driver :: Driver
  images :: "handle \<rightharpoonup> VkImageCreateInfo"
  memories :: "handle \<rightharpoonup> VkMemoryAllocateInfo"
  imageViews :: "handle \<rightharpoonup> VkImageViewCreateInfo"
  fences :: "handle set"
  commandBuffers :: "handle set"
  in_flight :: "(handle \<times> handle) list"
  nextHandle :: handle
  vk_calls :: "vk_call list"

definition emit :: "vk_call \<Rightarrow> VkWorld \<Rightarrow> VkWorld" where
  "emit c w = w\<lparr>vk_calls := vk_calls w @ [c]\<rparr>"

definition new_handle :: "VkWorld \<Rightarrow> handle \<times> VkWorld" where
  "new_handle w = (nextHandle w, w\<lparr>nextHandle := Suc (nextHandle w)\<rparr>)"

definition vkCreateImage :: "VkImageCreateInfo \<Rightarrow> VkWorld \<Rightarrow> handle \<times> VkWorld" where
  "vkCreateImage info w =
     (case new_handle w of (h, w1) \<Rightarrow> (h, emit (CreateImage h) (w1\<lparr>images := (images w1)(h \<mapsto> info)\<rparr>)))"

definition vkDestroyImage :: "handle \<Rightarrow> VkWorld \<Rightarrow> VkWorld" where
  "vkDestroyImage h w = emit (DestroyImage h) (w\<lparr>images := (images w)(h := None)\<rparr>)"

definition vkAllocateMemory :: "VkMemoryAllocateInfo \<Rightarrow> VkWorld \<Rightarrow> handle \<times> VkWorld" where
  "vkAllocateMemory info w =
     (case new_handle w of (h, w1) \<Rightarrow> (h, emit (AllocateMemory h) (w1\<lparr>memories := (memories w1)(h \<mapsto> info)\<rparr>)))"

definition vkFreeMemory :: "handle \<Rightarrow> VkWorld \<Rightarrow> VkWorld" where
  "vkFreeMemory h w = emit (FreeMemory h) (w\<lparr>memories := (memories w)(h := None)\<rparr>)"

definition vkBindImageMemory :: "handle \<Rightarrow> handle \<Rightarrow> VkWorld \<Rightarrow> VkWorld" where
  "vkBindImageMemory i m w = emit (BindImageMemory i m) w"

definition vkCreateImageView :: "VkImageViewCreateInfo \<Rightarrow> VkWorld \<Rightarrow> handle \<times> VkWorld" where
  "vkCreateImageView info w =
     (case new_handle w of (h, w1) \<Rightarrow>
        (h, emit (CreateImageView h) (w1\<lparr>imageViews := (imageViews w1)(h \<mapsto> info)\<rparr>)))"

definition vkDestroyImageView :: "handle \<Rightarrow> VkWorld \<Rightarrow> VkWorld" where
  "vkDestroyImageView h w = emit (DestroyImageView h) (w\<lparr>imageViews := (imageViews w)(h := None)\<rparr>)"

definition vkAllocateCommandBuffers :: "VkWorld \<Rightarrow> handle \<times> VkWorld" where
  "vkAllocateCommandBuffers w =
     (case new_handle w of (h, w1) \<Rightarrow>
        (h, emit (AllocateCommandBuffers h) (w1\<lparr>commandBuffers := insert h (commandBuffers w1)\<rparr>)))"

definition vkFreeCommandBuffers :: "handle \<Rightarrow> VkWorld \<Rightarrow> VkWorld" where
  "vkFreeCommandBuffers h w =
     emit (FreeCommandBuffers h) (w\<lparr>commandBuffers := commandBuffers w - {h}\<rparr>)"

definition vkBeginCommandBuffer :: "handle \<Rightarrow> VkWorld \<Rightarrow> VkWorld" where
  "vkBeginCommandBuffer h w = emit (BeginCommandBuffer h) w"

definition vkEndCommandBuffer :: "handle \<Rightarrow> VkWorld \<Rightarrow> VkWorld" where
  "vkEndCommandBuffer h w = emit (EndCommandBuffer h) w"

definition vkCreateFence :: "VkWorld \<Rightarrow> handle \<times> VkWorld" where
  "vkCreateFence w =
     (case new_handle w of (h, w1) \<Rightarrow> (h, emit (CreateFence h) (w1\<lparr>fences := insert h (fences w1)\<rparr>)))"

definition vkDestroyFence :: "handle \<Rightarrow> VkWorld \<Rightarrow> VkWorld" where
  "vkDestroyFence h w = emit (DestroyFence h) (w\<lparr>fences := fences w - {h}\<rparr>)"

text \<open>
  A submission stays in flight until the host has waited for it. Waiting for a fence
  without a limit (\<open>UINT64_MAX\<close>) returns once the submissions made with that fence are
  complete; with a finite limit the call may return earlier, and nothing is known to be
  complete. \<open>vkQueueWaitIdle\<close> returns once the queue has nothing left.
\<close>

definition vkQueueSubmit :: "handle list \<Rightarrow> handle \<Rightarrow> VkWorld \<Rightarrow> VkWorld" where
  "vkQueueSubmit cmds fence w =
     emit (QueueSubmit cmds fence) (w\<lparr>in_flight := in_flight w @ map (\<lambda>c. (c, fence)) cmds\<rparr>)"

definition vkWaitForFences :: "handle \<Rightarrow> 64 word \<Rightarrow> VkWorld \<Rightarrow> VkWorld" where
  "vkWaitForFences fence timeout w =
     emit (WaitForFences fence timeout)
       (if timeout = UINT64_MAX
        then w\<lparr>in_flight := filter (\<lambda>(c, f). f \<noteq> fence) (in_flight w)\<rparr>
        else w)"

definition vkQueueWaitIdle :: "VkWorld \<Rightarrow> VkWorld" where
  "vkQueueWaitIdle w = emit QueueWaitIdle (w\<lparr>in_flight := []\<rparr>)"

definition vkGetPhysicalDeviceFormatProperties :: "VkFormat \<Rightarrow> VkWorld \<Rightarrow> u32 \<times> VkWorld" where
  "vkGetPhysicalDeviceFormatProperties f w =
     (optimalTilingFeatures (driver w) f, emit (GetPhysicalDeviceFormatProperties f) w)"

definition vkGetDeviceQueue :: "u32 \<Rightarrow> VkWorld \<Rightarrow> handle \<times> VkWorld" where
  "vkGetDeviceQueue family w = (case new_handle w of (h, w1) \<Rightarrow> (h, emit (GetDeviceQueue family) w1))"

definition vkCreateCommandPool :: "VkWorld \<Rightarrow> handle \<times> VkWorld" where
  "vkCreateCommandPool w = (case new_handle w of (h, w1) \<Rightarrow> (h, emit (CreateCommandPool h) w1))"

definition vkCreatePipelineCache :: "VkWorld \<Rightarrow> handle \<times> VkWorld" where
  "vkCreatePipelineCache w = (case new_handle w of (h, w1) \<Rightarrow> (h, emit (CreatePipelineCache h) w1))"

text \<open>The requirements of an image are those the driver has for its creation parameters.\<close>

definition vkGetImageMemoryRequirements :: "handle \<Rightarrow> VkWorld \<Rightarrow> fault + nat \<times> u32" where
  "vkGetImageMemoryRequirements h w =
     (case images w h of
        None \<Rightarrow> Inl (BadHandle h)
      | Some info \<Rightarrow> Inr (imageMemorySize (driver w) info, imageMemoryTypeBits (driver w) info))"

definition vkGetImageSubresourceLayout :: "handle \<Rightarrow> VkWorld \<Rightarrow> fault + VkSubresourceLayout" where
  "vkGetImageSubresourceLayout h w =
     (case images w h of
        None \<Rightarrow> Inl (BadHandle h)
      | Some info \<Rightarrow> Inr (imageSubresourceLayout (driver w) info))"

definition vkMapMemory :: "handle \<Rightarrow> VkWorld \<Rightarrow> string \<times> VkWorld" where
  "vkMapMemory h w = (mappedBytes (driver w) h, emit (MapMemory h) w)"

section \<open>The base class \<open>HeadlessAppVK\<close>\<close>

text \<open>
  The members that the functions below read or write. The device, the physical device
  and the queue are reached through \<open>vk\<close>, the state of the device.
\<close>

record HeadlessAppVK =
  vk :: VkWorld
  m_queue :: handle
  m_graphicsQueueIndex :: u32
  m_cmdPool :: handle
  m_pipelineCache :: handle
  m_commandBuffer :: handle
  m_colorImage :: handle
  m_colorMemory :: handle
  m_colorView :: handle
  m_depthImage :: handle
  m_depthMemory :: handle
  m_depthView :: handle
  m_size :: VkExtent2D
  m_colorFormat :: VkFormat
  m_depthFormat :: VkFormat

subsection \<open>\<open>HeadlessAppVK::setup\<close>: the depth format\<close>

text \<open>The loop over the three candidate formats; it stops at the first that qualifies.\<close>

fun probeDepthFormat :: "VkFormat list \<Rightarrow> 'a HeadlessAppVK_scheme \<Rightarrow> 'a HeadlessAppVK_scheme" where
  "probeDepthFormat [] a = a"
| "probeDepthFormat (f # fs) a =
     (case vkGetPhysicalDeviceFormatProperties f (vk a) of
        (optimalFeatures, w) \<Rightarrow>
          let feature = VK_FORMAT_FEATURE_DEPTH_STENCIL_ATTACHMENT_BIT;
              a1 = a\<lparr>vk := w\<rparr>
          in if (optimalFeatures AND feature) = feature
             then a1\<lparr>m_depthFormat := f\<rparr>
             else probeDepthFormat fs a1)"

definition depthFormatCandidates :: "VkFormat list" where
  "depthFormatCandidates =
     [VK_FORMAT_D24_UNORM_S8_UINT, VK_FORMAT_D32_SFLOAT_S8_UINT, VK_FORMAT_D16_UNORM_S8_UINT]"

definition setup_HeadlessAppVK ::
  "VkWorld \<Rightarrow> u32 \<Rightarrow> u32 \<Rightarrow> u32 \<Rightarrow> VkFormat \<Rightarrow> VkFormat \<Rightarrow>
   'a HeadlessAppVK_scheme \<Rightarrow> 'a HeadlessAppVK_scheme" where
  "setup_HeadlessAppVK device graphicsQueueIndex w h colorFormat depthFormat a =
     (let a1 = a\<lparr>vk := device, m_graphicsQueueIndex := graphicsQueueIndex,
                  m_size := \<lparr>width = w, height = h\<rparr>,
                  m_colorFormat := colorFormat, m_depthFormat := depthFormat\<rparr>
      in case vkGetDeviceQueue (m_graphicsQueueIndex a1) (vk a1) of (q, w1) \<Rightarrow>
         case vkCreateCommandPool w1 of (pool, w2) \<Rightarrow>
         case vkCreatePipelineCache w2 of (cache, w3) \<Rightarrow>
           let a2 = a1\<lparr>vk := w3, m_queue := q, m_cmdPool := pool, m_pipelineCache := cache\<rparr>
           in if m_depthFormat a2 = VK_FORMAT_UNDEFINED
              then probeDepthFormat depthFormatCandidates a2
              else a2)"

text \<open>
  The probe in the words of the specification: the first qualifying candidate, and a
  fatal configuration error when there is none.
\<close>

definition spec_probeDepthFormat :: "(VkFormat \<Rightarrow> u32) \<Rightarrow> fault + VkFormat" where
  "spec_probeDepthFormat features =
     (case find (\<lambda>f. (features f AND VK_FORMAT_FEATURE_DEPTH_STENCIL_ATTACHMENT_BIT)
                        = VK_FORMAT_FEATURE_DEPTH_STENCIL_ATTACHMENT_BIT) depthFormatCandidates of
        Some f \<Rightarrow> Inr f
      | None \<Rightarrow> Inl FatalConfiguration)"

subsection \<open>\<open>getMemoryType\<close>\<close>

definition digit :: "nat \<Rightarrow> char" where
  "digit d = ''0123456789'' ! d"

text \<open>\<open>std::to_string\<close> and \<open>operator<<\<close> on an unsigned number: its decimal digits.\<close>

function to_string :: "nat \<Rightarrow> string" where
  "to_string n = (if n < 10 then [digit n] else to_string (n div 10) @ [digit (n mod 10)])"
  by pat_completeness auto
termination
  by (relation "measure (\<lambda>n. n)") auto

declare to_string.simps [simp del]

text \<open>
  The scan of the memory types from index \<open>i\<close> on. \<open>1 << i\<close> and \<open>memoryTypes[i]\<close> are
  defined for \<open>i\<close> below \<open>VK_MAX_MEMORY_TYPES\<close> only. When the scan ends without a match
  the message is logged; then \<open>assert(0)\<close> ends the run, unless the assertions are
  compiled out, in which case \<open>return ~0u\<close> is reached. The result is the list of the
  lines logged together with the fault or the value returned.
\<close>

function getMemoryType_from ::
  "Driver \<Rightarrow> u32 \<Rightarrow> u32 \<Rightarrow> nat \<Rightarrow> string list \<times> (fault + u32)" where
  "getMemoryType_from d typeBits properties i =
     (if i < unat (memoryTypeCount d)
      then if \<not> (i < VK_MAX_MEMORY_TYPES \<and> i < length (memoryTypes d)) then ([], Inl (OutOfBounds i))
           else if 0 < (typeBits AND push_bit i 1) \<and> (memoryTypes d ! i AND properties) = properties
                then ([], Inr (of_nat i))
                else getMemoryType_from d typeBits properties (Suc i)
      else let err = ''Unable to find memory type '' @ to_string (unat properties)
           in ([err], if NDEBUG d then Inr (NOT 0) else Inl (AssertFailed ''0'')))"
  by pat_completeness auto
termination
  by (relation "measure (\<lambda>(d, typeBits, properties, i). unat (memoryTypeCount d) - i)") auto

declare getMemoryType_from.simps [simp del]

text \<open>
  \<open>getMemoryType\<close> is what the call yields to its caller, \<open>getMemoryType_log\<close> what it
  writes to the log of the process. The callers below use the former; the log of the
  process is not part of the state of the device.
\<close>

definition getMemoryType :: "'a HeadlessAppVK_scheme \<Rightarrow> u32 \<Rightarrow> u32 \<Rightarrow> fault + u32" where
  "getMemoryType a typeBits properties = snd (getMemoryType_from (driver (vk a)) typeBits properties 0)"


subsection \<open>The colour and the depth target\<close>

definition createColorBuffer :: "'a HeadlessAppVK_scheme \<Rightarrow> fault + 'a HeadlessAppVK_scheme" where
  "createColorBuffer a =
     (let a1 = (if m_colorView a \<noteq> VK_NULL_HANDLE
                then a\<lparr>vk := vkDestroyImageView (m_colorView a) (vk a)\<rparr> else a);
          a2 = (if m_colorImage a1 \<noteq> VK_NULL_HANDLE
                then a1\<lparr>vk := vkDestroyImage (m_colorImage a1) (vk a1)\<rparr> else a1);
          a3 = (if m_colorMemory a2 \<noteq> VK_NULL_HANDLE
                then a2\<lparr>vk := vkFreeMemory (m_colorMemory a2) (vk a2)\<rparr> else a2);
          image = \<lparr>ici_format = m_colorFormat a3, ici_extent = m_size a3,
                   ici_tiling = VK_IMAGE_TILING_OPTIMAL,
                   ici_usage = VK_IMAGE_USAGE_COLOR_ATTACHMENT_BIT OR VK_IMAGE_USAGE_TRANSFER_SRC_BIT\<rparr>
      in case vkCreateImage image (vk a3) of (img, w4) \<Rightarrow>
         let a4 = a3\<lparr>vk := w4, m_colorImage := img\<rparr>
         in case vkGetImageMemoryRequirements (m_colorImage a4) (vk a4) of
              Inl e \<Rightarrow> Inl e
            | Inr (memSize, memoryTypeBits) \<Rightarrow>
         case getMemoryType a4 memoryTypeBits VK_MEMORY_PROPERTY_DEVICE_LOCAL_BIT of
              Inl e \<Rightarrow> Inl e
            | Inr idx \<Rightarrow>
         case vkAllocateMemory \<lparr>allocationSize = memSize, memoryTypeIndex = idx\<rparr> (vk a4) of (mem, w5) \<Rightarrow>
         let a5 = a4\<lparr>vk := w5, m_colorMemory := mem\<rparr>;
             a6 = a5\<lparr>vk := vkBindImageMemory (m_colorImage a5) (m_colorMemory a5) (vk a5)\<rparr>;
             colorImageView = \<lparr>ivci_image = m_colorImage a6, ivci_format = m_colorFormat a6,
                               ivci_aspectMask = VK_IMAGE_ASPECT_COLOR_BIT\<rparr>
         in case vkCreateImageView colorImageView (vk a6) of (view, w7) \<Rightarrow>
            Inr (a6\<lparr>vk := w7, m_colorView := view\<rparr>))"

definition createDepthBuffer :: "'a HeadlessAppVK_scheme \<Rightarrow> fault + 'a HeadlessAppVK_scheme" where
  "createDepthBuffer a =
     (let a1 = (if m_depthView a \<noteq> VK_NULL_HANDLE
                then a\<lparr>vk := vkDestroyImageView (m_depthView a) (vk a)\<rparr> else a);
          a2 = (if m_depthImage a1 \<noteq> VK_NULL_HANDLE
                then a1\<lparr>vk := vkDestroyImage (m_depthImage a1) (vk a1)\<rparr> else a1);
          a3 = (if m_depthMemory a2 \<noteq> VK_NULL_HANDLE
                then a2\<lparr>vk := vkFreeMemory (m_depthMemory a2) (vk a2)\<rparr> else a2);
          depthStencilCreateInfo =
            \<lparr>ici_format = m_depthFormat a3, ici_extent = m_size a3,
             ici_tiling = VK_IMAGE_TILING_OPTIMAL,
             ici_usage = VK_IMAGE_USAGE_DEPTH_STENCIL_ATTACHMENT_BIT OR VK_IMAGE_USAGE_TRANSFER_SRC_BIT\<rparr>
      in case vkCreateImage depthStencilCreateInfo (vk a3) of (img, w4) \<Rightarrow>
         let a4 = a3\<lparr>vk := w4, m_depthImage := img\<rparr>
         in case vkGetImageMemoryRequirements (m_depthImage a4) (vk a4) of
              Inl e \<Rightarrow> Inl e
            | Inr (memSize, memoryTypeBits) \<Rightarrow>
         case getMemoryType a4 memoryTypeBits VK_MEMORY_PROPERTY_DEVICE_LOCAL_BIT of
              Inl e \<Rightarrow> Inl e
            | Inr idx \<Rightarrow>
         case vkAllocateMemory \<lparr>allocationSize = memSize, memoryTypeIndex = idx\<rparr> (vk a4) of (mem, w5) \<Rightarrow>
         let a5 = a4\<lparr>vk := w5, m_depthMemory := mem\<rparr>;
             a6 = a5\<lparr>vk := vkBindImageMemory (m_depthImage a5) (m_depthMemory a5) (vk a5)\<rparr>;
             aspectMask0 = VK_IMAGE_ASPECT_DEPTH_BIT;
             aspectMask = (if VK_FORMAT_D16_UNORM_S8_UINT \<le> m_depthFormat a6
                           then aspectMask0 OR VK_IMAGE_ASPECT_STENCIL_BIT else aspectMask0);
             depthStencilView = \<lparr>ivci_image = m_depthImage a6, ivci_format = m_depthFormat a6,
                                 ivci_aspectMask = aspectMask\<rparr>
         in case vkCreateImageView depthStencilView (vk a6) of (view, w7) \<Rightarrow>
            Inr (a6\<lparr>vk := w7, m_depthView := view\<rparr>))"

text \<open>Calling a function \<open>n\<close> times in a row; the first fault ends the run.\<close>

fun times :: "nat \<Rightarrow> ('s \<Rightarrow> fault + 's) \<Rightarrow> 's \<Rightarrow> fault + 's" where
  "times 0 f s = Inr s"
| "times (Suc n) f s = (case f s of Inl e \<Rightarrow> Inl e | Inr s' \<Rightarrow> times n f s')"

subsection \<open>Command buffers and submission\<close>

definition submitWork :: "handle \<Rightarrow> 'a HeadlessAppVK_scheme \<Rightarrow> 'a HeadlessAppVK_scheme" where
  "submitWork cmdBuffer a =
     (case vkCreateFence (vk a) of (fence, w1) \<Rightarrow>
        let w2 = vkQueueSubmit [cmdBuffer] fence w1;
            w3 = vkWaitForFences fence UINT64_MAX w2
        in a\<lparr>vk := vkDestroyFence fence w3\<rparr>)"

definition createTempCmdBuffer :: "'a HeadlessAppVK_scheme \<Rightarrow> handle \<times> 'a HeadlessAppVK_scheme" where
  "createTempCmdBuffer a =
     (case vkAllocateCommandBuffers (vk a) of (cmdBuffer, w1) \<Rightarrow>
        (cmdBuffer, a\<lparr>vk := vkBeginCommandBuffer cmdBuffer w1\<rparr>))"

definition submitTempCmdBuffer :: "handle \<Rightarrow> 'a HeadlessAppVK_scheme \<Rightarrow> 'a HeadlessAppVK_scheme" where
  "submitTempCmdBuffer cmdBuffer a =
     (let w1 = vkEndCommandBuffer cmdBuffer (vk a);
          w2 = vkQueueSubmit [cmdBuffer] VK_NULL_HANDLE w1;
          w3 = vkQueueWaitIdle w2
      in a\<lparr>vk := vkFreeCommandBuffers cmdBuffer w3\<rparr>)"

text \<open>
  A one-shot operation through the pair above: between the two calls the caller records
  the commands \<open>recorded c\<close> into the command buffer \<open>c\<close> it was given.
\<close>

definition emit_all :: "vk_call list \<Rightarrow> VkWorld \<Rightarrow> VkWorld" where
  "emit_all cs w = w\<lparr>vk_calls := vk_calls w @ cs\<rparr>"

definition tempCmdBufferOperation ::
  "(handle \<Rightarrow> vk_call list) \<Rightarrow> 'a HeadlessAppVK_scheme \<Rightarrow> 'a HeadlessAppVK_scheme" where
  "tempCmdBufferOperation recorded a =
     (case createTempCmdBuffer a of (cmdBuffer, a1) \<Rightarrow>
        submitTempCmdBuffer cmdBuffer (a1\<lparr>vk := emit_all (recorded cmdBuffer) (vk a1)\<rparr>))"

text \<open>
  The sequence in the words of the specification, for a command buffer \<open>c\<close>, a fence \<open>f\<close>
  and the calls \<open>r\<close> recorded by the caller.
\<close>

definition spec_transient_calls :: "handle \<Rightarrow> handle \<Rightarrow> vk_call list \<Rightarrow> vk_call list" where
  "spec_transient_calls c f r =
     [AllocateCommandBuffers c, BeginCommandBuffer c] @ r @
     [EndCommandBuffer c, CreateFence f, QueueSubmit [c] f, WaitForFences f UINT64_MAX,
      DestroyFence f, FreeCommandBuffers c]"

subsection \<open>Writing the image file\<close>

definition VK_FORMAT_B8G8R8A8_SNORM :: VkFormat where "VK_FORMAT_B8G8R8A8_SNORM = 45"
definition VK_FORMAT_B8G8R8A8_SRGB :: VkFormat where "VK_FORMAT_B8G8R8A8_SRGB = 50"

definition newline :: char where
  "newline = CHR 0x0A"

definition ppm_header :: "VkExtent2D \<Rightarrow> string" where
  "ppm_header sz =
     ''P6'' @ [newline] @ to_string (unat (width sz)) @ [newline] @
     to_string (unat (height sz)) @ [newline] @ to_string 255 @ [newline]"

text \<open>
  The inner loop: \<open>row\<close> is the address of the current pixel in the mapped bytes \<open>mem\<close>,
  \<open>x\<close> the signed 32-bit counter, \<open>w\<close> the width. A byte outside of the mapping cannot be
  read, and \<open>x++\<close> is defined only below \<open>2^31\<close>.
\<close>

function write_pixels :: "string \<Rightarrow> bool \<Rightarrow> nat \<Rightarrow> nat \<Rightarrow> nat \<Rightarrow> string \<Rightarrow> fault + string" where
  "write_pixels mem colorSwizzle w row x file =
     (if x < w
      then if \<not> row + 2 < length mem then Inl (BadRead row)
           else let file1 = (if colorSwizzle
                             then file @ [mem ! (row + 2)] @ [mem ! (row + 1)] @ [mem ! row]
                             else file @ [mem ! row, mem ! (row + 1), mem ! (row + 2)])
                in if 2 ^ 31 \<le> Suc x then Inl SignedOverflow
                   else write_pixels mem colorSwizzle w (row + 4) (Suc x) file1
      else Inr file)"
  by pat_completeness auto
termination
  by (relation "measure (\<lambda>(mem, colorSwizzle, w, row, x, file). w - x)") auto

declare write_pixels.simps [simp del]

text \<open>The outer loop: \<open>imagedata\<close> advances by the row pitch after each row.\<close>

function write_rows ::
  "string \<Rightarrow> bool \<Rightarrow> VkExtent2D \<Rightarrow> nat \<Rightarrow> nat \<Rightarrow> nat \<Rightarrow> string \<Rightarrow> fault + string" where
  "write_rows mem colorSwizzle sz rowPitch imagedata y file =
     (if y < unat (height sz)
      then case write_pixels mem colorSwizzle (unat (width sz)) imagedata 0 file of
             Inl e \<Rightarrow> Inl e
           | Inr file1 \<Rightarrow>
               if 2 ^ 31 \<le> Suc y then Inl SignedOverflow
               else write_rows mem colorSwizzle sz rowPitch (imagedata + rowPitch) (Suc y) file1
      else Inr file)"
  by pat_completeness auto
termination
  by (relation "measure (\<lambda>(mem, colorSwizzle, sz, rowPitch, imagedata, y, file). unat (height sz) - y)") auto

declare write_rows.simps [simp del]

text \<open>
  Lines 459 to 486 of \<open>dumpImage\<close>: the header, the swizzle flag (computed and then set),
  and the two loops, starting at the offset of the subresource.
\<close>

definition write_ppm :: "VkExtent2D \<Rightarrow> VkSubresourceLayout \<Rightarrow> string \<Rightarrow> fault + string" where
  "write_ppm sz subResourceLayout mapped =
     (let imagedata = sl_offset subResourceLayout;
          file = ppm_header sz;
          formatsBGR = [VK_FORMAT_B8G8R8A8_SRGB, VK_FORMAT_B8G8R8A8_UNORM, VK_FORMAT_B8G8R8A8_SNORM];
          colorSwizzle0 = (VK_FORMAT_R8G8B8A8_UNORM \<in> set formatsBGR);
          colorSwizzle = True
      in write_rows mapped colorSwizzle sz (sl_rowPitch subResourceLayout) imagedata 0 file)"

text \<open>
  \<open>dumpImage\<close>: a linear host-visible image is created, the colour target is copied into
  it by a command buffer of its own, the memory is mapped and written out, and the three
  objects are released. The result is the object and the bytes of the file.
\<close>

definition dumpImage :: "'a HeadlessAppVK_scheme \<Rightarrow> fault + 'a HeadlessAppVK_scheme \<times> string" where
  "dumpImage a =
     (let imgCreateInfo = \<lparr>ici_format = VK_FORMAT_R8G8B8A8_UNORM, ici_extent = m_size a,
                           ici_tiling = VK_IMAGE_TILING_LINEAR,
                           ici_usage = VK_IMAGE_USAGE_TRANSFER_DST_BIT\<rparr>
      in case vkCreateImage imgCreateInfo (vk a) of (dstImage, w1) \<Rightarrow>
         case vkGetImageMemoryRequirements dstImage w1 of
           Inl e \<Rightarrow> Inl e
         | Inr (memSize, memoryTypeBits) \<Rightarrow>
         case getMemoryType (a\<lparr>vk := w1\<rparr>) memoryTypeBits
                (VK_MEMORY_PROPERTY_HOST_VISIBLE_BIT OR VK_MEMORY_PROPERTY_HOST_COHERENT_BIT) of
           Inl e \<Rightarrow> Inl e
         | Inr idx \<Rightarrow>
         case vkAllocateMemory \<lparr>allocationSize = memSize, memoryTypeIndex = idx\<rparr> w1 of
           (dstImageMemory, w2) \<Rightarrow>
         let w3 = vkBindImageMemory dstImage dstImageMemory w2
         in case vkAllocateCommandBuffers w3 of (copyCmd, w4) \<Rightarrow>
         let w5 = vkBeginCommandBuffer copyCmd w4;
             w6 = emit (CmdPipelineBarrier copyCmd dstImage) w5;
             w7 = emit (CmdCopyImage copyCmd (m_colorImage a) dstImage) w6;
             w8 = emit (CmdPipelineBarrier copyCmd dstImage) w7;
             w9 = vkEndCommandBuffer copyCmd w8;
             a1 = submitWork copyCmd (a\<lparr>vk := w9\<rparr>)
         in case vkGetImageSubresourceLayout dstImage (vk a1) of
              Inl e \<Rightarrow> Inl e
            | Inr subResourceLayout \<Rightarrow>
         case vkMapMemory dstImageMemory (vk a1) of (mapped, w10) \<Rightarrow>
         case write_ppm (m_size a1) subResourceLayout mapped of
              Inl e \<Rightarrow> Inl e
            | Inr file \<Rightarrow>
         let w11 = vkDestroyImage dstImage w10;
             w12 = vkFreeMemory dstImageMemory w11;
             w13 = vkFreeCommandBuffers copyCmd w12
         in Inr (a1\<lparr>vk := w13\<rparr>, file))"

text \<open>The object after construction, on a device that has created nothing yet.\<close>

definition new_world :: "Driver \<Rightarrow> VkWorld" where
  "new_world d =
     \<lparr>driver = d, images = Map.empty, memories = Map.empty, imageViews = Map.empty,
      fences = {}, commandBuffers = {}, in_flight = [], nextHandle = 1, vk_calls = []\<rparr>"

definition initial_HeadlessAppVK :: "Driver \<Rightarrow> HeadlessAppVK" where
  "initial_HeadlessAppVK d =
     \<lparr>vk = new_world d, m_queue = VK_NULL_HANDLE, m_graphicsQueueIndex = - 1,
      m_cmdPool = VK_NULL_HANDLE, m_pipelineCache = VK_NULL_HANDLE,
      m_commandBuffer = VK_NULL_HANDLE,
      m_colorImage = VK_NULL_HANDLE, m_colorMemory = VK_NULL_HANDLE, m_colorView = VK_NULL_HANDLE,
      m_depthImage = VK_NULL_HANDLE, m_depthMemory = VK_NULL_HANDLE, m_depthView = VK_NULL_HANDLE,
      m_size = \<lparr>width = 0, height = 0\<rparr>,
      m_colorFormat = VK_FORMAT_B8G8R8A8_UNORM, m_depthFormat = VK_FORMAT_UNDEFINED\<rparr>"

section \<open>The renderer switch of \<open>SampleExample\<close>\<close>

text \<open>The enumeration \<open>RndMethod\<close>, with the numeric value the compiler gives each name.\<close>

datatype RndMethod = eRtxPipeline | eRayQuery | eNone

fun rnd_index :: "RndMethod \<Rightarrow> nat" where
  "rnd_index eRtxPipeline = 0"
| "rnd_index eRayQuery = 1"
| "rnd_index eNone = 2"

text \<open>
  Modelled from the spec: the class \<open>Renderer\<close> (\<open>renderer.h\<close>) and its two
  subclasses are declared outside of the source files. A backend is an object that can
  be created and destroyed; the model keeps whether it currently is, and the calls it
  receives are written to the call log of the application.
\<close>

record Renderer =
  constructed :: bool

datatype call =
    DeviceWaitIdle
  | RendererDestroy nat
  | RendererCreate nat
  | RendererSetPushConstants nat
  | RendererRun nat VkExtent2D

text \<open>The fields of \<open>RtxState\<close> that the host code reads or writes (\<open>int frame\<close>, \<open>ivec2 size\<close>).\<close>

record RtxState =
  frame :: u32
  maxDepth :: u32
  maxSamples :: u32
  rtx_size :: "u32 \<times> u32"

text \<open>
  \<open>SampleExample\<close> derives from \<open>HeadlessAppVK\<close>. \<open>calls\<close> is the log of what
  \<open>createRender\<close> and \<open>renderScene\<close> ask of the device and of the backends.
\<close>

record SampleExample = HeadlessAppVK +
  m_pRender :: "Renderer list"
  m_rndMethod :: RndMethod
  m_renderRegion :: VkRect2D
  m_rtxState :: RtxState
  m_maxFrames :: u32
  m_descaling :: bool
  m_descalingLevel :: u32
  calls :: "call list"

text \<open>
  \<open>m_pRender[i]->f()\<close>: the array is a \<open>std::array<Renderer*, eNone>\<close>, and an index
  outside of it is reported as a fault instead of read.
\<close>

definition render_call ::
  "nat \<Rightarrow> (Renderer \<Rightarrow> Renderer) \<Rightarrow> call \<Rightarrow> SampleExample \<Rightarrow> fault + SampleExample" where
  "render_call i f c s =
     (if i < length (m_pRender s)
      then Inr (s\<lparr>m_pRender := (m_pRender s)[i := f (m_pRender s ! i)], calls := calls s @ [c]\<rparr>)
      else Inl (OutOfBounds i))"

definition vkDeviceWaitIdle :: "SampleExample \<Rightarrow> SampleExample" where
  "vkDeviceWaitIdle s = s\<lparr>calls := calls s @ [DeviceWaitIdle]\<rparr>"

definition renderer_destroy :: "nat \<Rightarrow> SampleExample \<Rightarrow> fault + SampleExample" where
  "renderer_destroy i s = render_call i (\<lambda>r. r\<lparr>constructed := False\<rparr>) (RendererDestroy i) s"

definition renderer_create :: "nat \<Rightarrow> SampleExample \<Rightarrow> fault + SampleExample" where
  "renderer_create i s = render_call i (\<lambda>r. r\<lparr>constructed := True\<rparr>) (RendererCreate i) s"

definition createRender :: "RndMethod \<Rightarrow> SampleExample \<Rightarrow> fault + SampleExample" where
  "createRender method s =
     (if method = m_rndMethod s then Inr s
      else
        case (if m_rndMethod s \<noteq> eNone
              then renderer_destroy (rnd_index (m_rndMethod s)) (vkDeviceWaitIdle s)
              else Inr s) of
          Inl e \<Rightarrow> Inl e
        | Inr s1 \<Rightarrow>
            let s2 = s1\<lparr>m_rndMethod := method\<rparr>
            in renderer_create (rnd_index (m_rndMethod s2)) s2)"

definition resetFrame :: "SampleExample \<Rightarrow> SampleExample" where
  "resetFrame s = s\<lparr>m_rtxState := (m_rtxState s)\<lparr>frame := - 1\<rparr>\<rparr>"

text \<open>
  \<open>renderScene\<close>: nothing happens once the frame counter has reached \<open>m_maxFrames\<close>
  (a signed comparison); otherwise the render size is the extent of the render region,
  divided by the descaling level when descaling is on (an unsigned division), and the
  active backend receives the push constants and is run. The profiler sections, the
  hardware monitor and the mip-map pass for the automatic exposure surround these steps
  and touch none of the members used here; they are left out.
\<close>

definition renderScene :: "SampleExample \<Rightarrow> fault + SampleExample" where
  "renderScene s =
     (if m_maxFrames s \<le>s frame (m_rtxState s) then Inr s
      else if m_descaling s \<and> m_descalingLevel s = 0 then Inl DivisionByZero
      else
        let e = extent (m_renderRegion s);
            render_size = (if m_descaling s
                           then \<lparr>width = width e div m_descalingLevel s,
                                 height = height e div m_descalingLevel s\<rparr>
                           else e);
            s1 = s\<lparr>m_rtxState := (m_rtxState s)\<lparr>rtx_size := (width (m_size s), height (m_size s))\<rparr>\<rparr>;
            i = rnd_index (m_rndMethod s1)
        in case render_call i (\<lambda>r. r) (RendererSetPushConstants i) s1 of
             Inl e \<Rightarrow> Inl e
           | Inr s2 \<Rightarrow> render_call i (\<lambda>r. r) (RendererRun i render_size) s2)"

text \<open>
  \<open>setRenderRegion\<close> compares the stored region with the new one by \<open>memcmp\<close> over
  the \<open>sizeof(VkRect2D)\<close> bytes of the two objects: four 32-bit fields, without padding,
  each with its low byte first. \<open>memcmp\<close> compares the first \<open>n\<close> bytes as unsigned
  values; both objects have all of these bytes, so its last equation is met only when
  the count has run out.
\<close>

definition bytes_u32 :: "u32 \<Rightarrow> u8 list" where
  "bytes_u32 w = [ucast w, ucast (drop_bit 8 w), ucast (drop_bit 16 w), ucast (drop_bit 24 w)]"

definition bytes_VkRect2D :: "VkRect2D \<Rightarrow> u8 list" where
  "bytes_VkRect2D r =
     bytes_u32 (off_x (offset r)) @ bytes_u32 (off_y (offset r)) @
     bytes_u32 (width (extent r)) @ bytes_u32 (height (extent r))"

definition sizeof_VkRect2D :: nat where
  "sizeof_VkRect2D = 16"

fun memcmp :: "u8 list \<Rightarrow> u8 list \<Rightarrow> nat \<Rightarrow> int" where
  "memcmp (a # as) (b # bs) (Suc n) = (if a = b then memcmp as bs n else if a < b then - 1 else 1)"
| "memcmp _ _ _ = 0"

definition setRenderRegion :: "VkRect2D \<Rightarrow> SampleExample \<Rightarrow> SampleExample" where
  "setRenderRegion sz s =
     (let s1 = (if memcmp (bytes_VkRect2D (m_renderRegion s)) (bytes_VkRect2D sz) sizeof_VkRect2D \<noteq> 0
                then resetFrame s else s)
      in s1\<lparr>m_renderRegion := sz\<rparr>)"

text \<open>
  A device for the examples: of the three candidate depth formats it supports the second
  and the third; it has two memory types, the first host-visible and host-coherent, the
  second device-local, and every image may use either. The program is built with its
  assertions.
\<close>

definition example_driver :: Driver where
  "example_driver =
     \<lparr>optimalTilingFeatures = (\<lambda>f. if f = VK_FORMAT_D32_SFLOAT_S8_UINT \<or> f = VK_FORMAT_D16_UNORM_S8_UINT
                                     then 0x200 else 0),
      memoryTypeCount = 2,
      memoryTypes = [6, 1] @ replicate 30 0,
      imageMemoryTypeBits = (\<lambda>info. 3),
      imageMemorySize = (\<lambda>info. 4 * unat (width (ici_extent info)) * unat (height (ici_extent info))),
      imageSubresourceLayout = (\<lambda>info. \<lparr>sl_offset = 0, sl_rowPitch = 4 * unat (width (ici_extent info))\<rparr>),
      mappedBytes = (\<lambda>h. []),
      NDEBUG = False\<rparr>"

text \<open>The object as the in-class initialisers of the two headers leave it.\<close>

definition initial_SampleExample :: SampleExample where
  "initial_SampleExample =
     \<lparr>vk = new_world example_driver, m_queue = VK_NULL_HANDLE, m_graphicsQueueIndex = - 1,
      m_cmdPool = VK_NULL_HANDLE, m_pipelineCache = VK_NULL_HANDLE,
      m_commandBuffer = VK_NULL_HANDLE,
      m_colorImage = VK_NULL_HANDLE, m_colorMemory = VK_NULL_HANDLE, m_colorView = VK_NULL_HANDLE,
      m_depthImage = VK_NULL_HANDLE, m_depthMemory = VK_NULL_HANDLE, m_depthView = VK_NULL_HANDLE,
      m_size = \<lparr>width = 0, height = 0\<rparr>,
      m_colorFormat = VK_FORMAT_B8G8R8A8_UNORM, m_depthFormat = VK_FORMAT_UNDEFINED,
      m_pRender = [\<lparr>constructed = False\<rparr>, \<lparr>constructed = False\<rparr>],
      m_rndMethod = eNone,
      m_renderRegion = \<lparr>offset = \<lparr>off_x = 0, off_y = 0\<rparr>, extent = \<lparr>width = 0, height = 0\<rparr>\<rparr>,
      m_rtxState = \<lparr>frame = 0, maxDepth = 10, maxSamples = 1, rtx_size = (0, 0)\<rparr>,
      m_maxFrames = 100000,
      m_descaling = False,
      m_descalingLevel = 1,
      calls = []\<rparr>"

definition running_RtxPipeline :: SampleExample where
  "running_RtxPipeline =
     initial_SampleExample\<lparr>m_pRender := [\<lparr>constructed = True\<rparr>, \<lparr>constructed = False\<rparr>],
                            m_rndMethod := eRtxPipeline\<rparr>"


text \<open>
  The calls that a switch from \<open>cur\<close> to \<open>req\<close> adds to the log; and the same in the
  words of the specification, where every switch waits for the device.
\<close>

definition switch_calls :: "RndMethod \<Rightarrow> RndMethod \<Rightarrow> call list" where
  "switch_calls cur req =
     (if cur = eNone then [] else [DeviceWaitIdle, RendererDestroy (rnd_index cur)])
     @ [RendererCreate (rnd_index req)]"

definition spec_switch_calls :: "RndMethod \<Rightarrow> RndMethod \<Rightarrow> call list" where
  "spec_switch_calls cur req =
     [DeviceWaitIdle] @ (if cur = eNone then [] else [RendererDestroy (rnd_index cur)])
     @ [RendererCreate (rnd_index req)]"

fun replay :: "call \<Rightarrow> nat set \<Rightarrow> nat set" where
  "replay (RendererCreate i) L = insert i L"
| "replay (RendererDestroy i) L = L - {i}"
| "replay _ L = L"

definition live_of :: "Renderer list \<Rightarrow> nat set" where
  "live_of rs = {i. i < length rs \<and> constructed (rs ! i)}"

definition live_backends :: "SampleExample \<Rightarrow> nat set" where
  "live_backends s = live_of (m_pRender s)"


text \<open>Reading the four bytes back (used to show that the byte image determines the value).\<close>

definition u32_of_bytes :: "u8 list \<Rightarrow> u32" where
  "u32_of_bytes bs = (ucast (bs ! 0)) OR push_bit 8 (ucast (bs ! 1)) OR push_bit 16 (ucast (bs ! 2)) OR push_bit 24 (ucast (bs ! 3))"

section \<open>Notions used in the statements\<close>

text \<open>A format qualifies when its optimal-tiling features include the depth/stencil attachment bit.\<close>

definition qualifies :: "VkWorld \<Rightarrow> VkFormat \<Rightarrow> bool" where
  "qualifies device f \<longleftrightarrow>
     (optimalTilingFeatures (driver device) f AND VK_FORMAT_FEATURE_DEPTH_STENCIL_ATTACHMENT_BIT)
       = VK_FORMAT_FEATURE_DEPTH_STENCIL_ATTACHMENT_BIT"

definition no_depth_driver :: Driver where
  "no_depth_driver = example_driver\<lparr>optimalTilingFeatures := (\<lambda>f. 0)\<rparr>"





text \<open>
  The three guarded releases at the head of \<open>createColorBuffer\<close> and
  \<open>createDepthBuffer\<close>, as one step on the device, and the calls they log.
\<close>

definition release :: "handle \<Rightarrow> handle \<Rightarrow> handle \<Rightarrow> VkWorld \<Rightarrow> VkWorld" where
  "release v i m w =
     (let w1 = (if v \<noteq> VK_NULL_HANDLE then vkDestroyImageView v w else w);
          w2 = (if i \<noteq> VK_NULL_HANDLE then vkDestroyImage i w1 else w1)
      in if m \<noteq> VK_NULL_HANDLE then vkFreeMemory m w2 else w2)"

definition release_calls :: "handle \<Rightarrow> handle \<Rightarrow> handle \<Rightarrow> vk_call list" where
  "release_calls v i m =
     (if v \<noteq> VK_NULL_HANDLE then [DestroyImageView v] else []) @
     (if i \<noteq> VK_NULL_HANDLE then [DestroyImage i] else []) @
     (if m \<noteq> VK_NULL_HANDLE then [FreeMemory m] else [])"

definition color_image_info :: "'a HeadlessAppVK_scheme \<Rightarrow> VkImageCreateInfo" where
  "color_image_info a =
     \<lparr>ici_format = m_colorFormat a, ici_extent = m_size a, ici_tiling = VK_IMAGE_TILING_OPTIMAL,
      ici_usage = VK_IMAGE_USAGE_COLOR_ATTACHMENT_BIT OR VK_IMAGE_USAGE_TRANSFER_SRC_BIT\<rparr>"

text \<open>The creation parameters of the two images and the aspect mask of the depth view.\<close>

definition depth_image_info :: "'a HeadlessAppVK_scheme \<Rightarrow> VkImageCreateInfo" where
  "depth_image_info a =
     \<lparr>ici_format = m_depthFormat a, ici_extent = m_size a, ici_tiling = VK_IMAGE_TILING_OPTIMAL,
      ici_usage = VK_IMAGE_USAGE_DEPTH_STENCIL_ATTACHMENT_BIT OR VK_IMAGE_USAGE_TRANSFER_SRC_BIT\<rparr>"

definition depth_aspectMask :: "VkFormat \<Rightarrow> u32" where
  "depth_aspectMask f =
     (if VK_FORMAT_D16_UNORM_S8_UINT \<le> f
      then VK_IMAGE_ASPECT_DEPTH_BIT OR VK_IMAGE_ASPECT_STENCIL_BIT
      else VK_IMAGE_ASPECT_DEPTH_BIT)"

text \<open>
  The render targets are well formed when the live images, memory objects and views are
  exactly the non-null handles the object holds, the colour and the depth handle of a
  kind differ unless null, and every handle held is older than the next one to be handed
  out. A target is alive when its three handles are non-null and name live objects.
\<close>

definition targets_wf :: "'a HeadlessAppVK_scheme \<Rightarrow> bool" where
  "targets_wf a \<longleftrightarrow>
     0 < nextHandle (vk a)
     \<and> dom (images (vk a)) = {m_colorImage a, m_depthImage a} - {VK_NULL_HANDLE}
     \<and> dom (memories (vk a)) = {m_colorMemory a, m_depthMemory a} - {VK_NULL_HANDLE}
     \<and> dom (imageViews (vk a)) = {m_colorView a, m_depthView a} - {VK_NULL_HANDLE}
     \<and> m_colorImage a < nextHandle (vk a) \<and> m_depthImage a < nextHandle (vk a)
     \<and> m_colorMemory a < nextHandle (vk a) \<and> m_depthMemory a < nextHandle (vk a)
     \<and> m_colorView a < nextHandle (vk a) \<and> m_depthView a < nextHandle (vk a)
     \<and> (m_colorImage a = m_depthImage a \<longrightarrow> m_colorImage a = VK_NULL_HANDLE)
     \<and> (m_colorMemory a = m_depthMemory a \<longrightarrow> m_colorMemory a = VK_NULL_HANDLE)
     \<and> (m_colorView a = m_depthView a \<longrightarrow> m_colorView a = VK_NULL_HANDLE)"

definition color_target_alive :: "'a HeadlessAppVK_scheme \<Rightarrow> bool" where
  "color_target_alive a \<longleftrightarrow>
     m_colorImage a \<noteq> VK_NULL_HANDLE \<and> m_colorMemory a \<noteq> VK_NULL_HANDLE
     \<and> m_colorView a \<noteq> VK_NULL_HANDLE
     \<and> m_colorImage a \<in> dom (images (vk a)) \<and> m_colorMemory a \<in> dom (memories (vk a))
     \<and> m_colorView a \<in> dom (imageViews (vk a))"

definition depth_target_alive :: "'a HeadlessAppVK_scheme \<Rightarrow> bool" where
  "depth_target_alive a \<longleftrightarrow>
     m_depthImage a \<noteq> VK_NULL_HANDLE \<and> m_depthMemory a \<noteq> VK_NULL_HANDLE
     \<and> m_depthView a \<noteq> VK_NULL_HANDLE
     \<and> m_depthImage a \<in> dom (images (vk a)) \<and> m_depthMemory a \<in> dom (memories (vk a))
     \<and> m_depthView a \<in> dom (imageViews (vk a))"

text \<open>The object of \<open>main\<close> after \<open>HeadlessAppVK::setup\<close>, here with a depth format given.\<close>

definition example_app :: HeadlessAppVK where
  "example_app =
     setup_HeadlessAppVK (new_world example_driver) 0 1008 660 VK_FORMAT_B8G8R8A8_UNORM
       VK_FORMAT_D32_SFLOAT (initial_HeadlessAppVK example_driver)"

text \<open>The calls that create, wait for or destroy a fence.\<close>

fun is_fence_call :: "vk_call \<Rightarrow> bool" where
  "is_fence_call (CreateFence f) = True"
| "is_fence_call (WaitForFences f t) = True"
| "is_fence_call (DestroyFence f) = True"
| "is_fence_call _ = False"

text \<open>
  The pixel data the file is expected to hold: for each row \<open>y\<close>, starting at
  \<open>off + y * pitch\<close> in the mapped bytes, and each pixel \<open>x\<close> of the row, the bytes 2, 1
  and 0 of the four bytes of the pixel.
\<close>

definition pixel_at :: "string \<Rightarrow> nat \<Rightarrow> string" where
  "pixel_at mem p = [mem ! (p + 2), mem ! (p + 1), mem ! p]"

definition ppm_row :: "string \<Rightarrow> nat \<Rightarrow> nat \<Rightarrow> string" where
  "ppm_row mem start w = concat (map (\<lambda>x. pixel_at mem (start + 4 * x)) [0..<w])"

definition ppm_data :: "string \<Rightarrow> nat \<Rightarrow> nat \<Rightarrow> nat \<Rightarrow> nat \<Rightarrow> string" where
  "ppm_data mem off pitch w h = concat (map (\<lambda>y. ppm_row mem (off + y * pitch) w) [0..<h])"

text \<open>The creation parameters of the image that \<open>dumpImage\<close> copies into.\<close>

definition dump_image_info :: "'a HeadlessAppVK_scheme \<Rightarrow> VkImageCreateInfo" where
  "dump_image_info a =
     \<lparr>ici_format = VK_FORMAT_R8G8B8A8_UNORM, ici_extent = m_size a,
      ici_tiling = VK_IMAGE_TILING_LINEAR, ici_usage = VK_IMAGE_USAGE_TRANSFER_DST_BIT\<rparr>"


section \<open>Properties of the renderer switch and of the render region\<close>

subsection \<open>Byte-exact comparison of regions\<close>

lemma bit_u32_of_bytes:
  assumes "n < 32"
  shows "bit (u32_of_bytes (bytes_u32 w)) n = bit w n"
proof -
  from assms consider "n < 8" | "8 \<le> n" "n < 16" | "16 \<le> n" "n < 24" | "24 \<le> n" "n < 32"
    by fastforce
  then show ?thesis
    by cases (auto simp: u32_of_bytes_def bytes_u32_def bit_simps)
qed

lemma u32_of_bytes_u32: "u32_of_bytes (bytes_u32 w) = w"
  by (rule bit_word_eqI) (simp add: bit_u32_of_bytes)

lemma bytes_u32_inj: "bytes_u32 a = bytes_u32 b \<longleftrightarrow> a = b"
  by (metis u32_of_bytes_u32)

lemma length_bytes_u32: "length (bytes_u32 w) = 4"
  by (simp add: bytes_u32_def)

lemma length_bytes_VkRect2D: "length (bytes_VkRect2D r) = sizeof_VkRect2D"
  by (simp add: bytes_VkRect2D_def sizeof_VkRect2D_def length_bytes_u32)

lemma bytes_VkRect2D_inj: "bytes_VkRect2D a = bytes_VkRect2D b \<longleftrightarrow> a = b"
proof
  assume h: "bytes_VkRect2D a = bytes_VkRect2D b"
  then have "off_x (offset a) = off_x (offset b) \<and> off_y (offset a) = off_y (offset b) \<and>
             width (extent a) = width (extent b) \<and> height (extent a) = height (extent b)"
    by (simp add: bytes_VkRect2D_def length_bytes_u32 bytes_u32_inj)
  then have "offset a = offset b" "extent a = extent b"
    by simp_all
  then show "a = b"
    by simp
qed simp

lemma memcmp_eq0:
  "n \<le> length as \<Longrightarrow> n \<le> length bs \<Longrightarrow> memcmp as bs n = 0 \<longleftrightarrow> take n as = take n bs"
  by (induction as bs n rule: memcmp.induct) auto

lemma memcmp_VkRect2D:
  "memcmp (bytes_VkRect2D a) (bytes_VkRect2D b) sizeof_VkRect2D = 0 \<longleftrightarrow> a = b"
  using memcmp_eq0 [of sizeof_VkRect2D "bytes_VkRect2D a" "bytes_VkRect2D b"]
  by (simp add: length_bytes_VkRect2D bytes_VkRect2D_inj)

text \<open>
  Claim C6. For every stored render region and every argument region \<open>S\<close>,
  \<open>setRenderRegion S\<close> resets the frame counter to the sentinel \<open>-1\<close> exactly when \<open>S\<close>
  differs from the stored region (otherwise the counter keeps its value), and in both
  cases the stored region is \<open>S\<close> afterwards.
\<close>

theorem setRenderRegion_resets_iff_differs:
  "frame (m_rtxState (setRenderRegion S s)) =
     (if S \<noteq> m_renderRegion s then - 1 else frame (m_rtxState s))
   \<and> m_renderRegion (setRenderRegion S s) = S"
  by (auto simp: setRenderRegion_def Let_def memcmp_VkRect2D resetFrame_def)

theorem setRenderRegion_witness:
  "frame (m_rtxState (setRenderRegion \<lparr>offset = \<lparr>off_x = 0, off_y = 0\<rparr>, extent = \<lparr>width = 1008, height = 660\<rparr>\<rparr> initial_SampleExample)) = - 1
   \<and> frame (m_rtxState (setRenderRegion (m_renderRegion initial_SampleExample) initial_SampleExample)) = 0"
  using setRenderRegion_resets_iff_differs [of "\<lparr>offset = \<lparr>off_x = 0, off_y = 0\<rparr>, extent = \<lparr>width = 1008, height = 660\<rparr>\<rparr>" initial_SampleExample]
    setRenderRegion_resets_iff_differs [of "m_renderRegion initial_SampleExample" initial_SampleExample]
  by (simp add: initial_SampleExample_def)

subsection \<open>Switching the backend\<close>

lemma rnd_index_lt: "m \<noteq> eNone \<Longrightarrow> rnd_index m < 2"
  by (cases m) auto

lemma rnd_index_inj: "rnd_index a = rnd_index b \<longleftrightarrow> a = b"
  by (cases a; cases b) auto

lemma live_of_create:
  "i < length rs \<Longrightarrow> live_of (rs[i := (rs ! i)\<lparr>constructed := True\<rparr>]) = insert i (live_of rs)"
  by (auto simp: live_of_def nth_list_update)

lemma live_of_destroy:
  "live_of (rs[i := (rs ! i)\<lparr>constructed := False\<rparr>]) = live_of rs - {i}"
  by (cases "i < length rs") (auto simp: live_of_def nth_list_update)

lemma renderer_create_ok:
  "i < length (m_pRender s) \<Longrightarrow>
   renderer_create i s =
     Inr (s\<lparr>m_pRender := (m_pRender s)[i := (m_pRender s ! i)\<lparr>constructed := True\<rparr>],
            calls := calls s @ [RendererCreate i]\<rparr>)"
  by (simp add: renderer_create_def render_call_def)

lemma renderer_destroy_ok:
  "i < length (m_pRender s) \<Longrightarrow>
   renderer_destroy i s =
     Inr (s\<lparr>m_pRender := (m_pRender s)[i := (m_pRender s ! i)\<lparr>constructed := False\<rparr>],
            calls := calls s @ [RendererDestroy i]\<rparr>)"
  by (simp add: renderer_destroy_def render_call_def)

lemma createRender_from_none:
  assumes "length (m_pRender s) = 2" "method \<noteq> eNone" "m_rndMethod s = eNone"
  shows "createRender method s =
     Inr (s\<lparr>m_rndMethod := method,
            m_pRender := (m_pRender s)[rnd_index method := (m_pRender s ! rnd_index method)\<lparr>constructed := True\<rparr>],
            calls := calls s @ [RendererCreate (rnd_index method)]\<rparr>)"
  using assms rnd_index_lt [of "method"]
  by (simp add: createRender_def renderer_create_ok)

lemma createRender_from_other:
  assumes "length (m_pRender s) = 2" "method \<noteq> eNone" "m_rndMethod s \<noteq> eNone" "method \<noteq> m_rndMethod s"
  shows "createRender method s =
     Inr (s\<lparr>m_rndMethod := method,
            m_pRender := ((m_pRender s)[rnd_index (m_rndMethod s) :=
                            (m_pRender s ! rnd_index (m_rndMethod s))\<lparr>constructed := False\<rparr>])
                         [rnd_index method := (m_pRender s ! rnd_index method)\<lparr>constructed := True\<rparr>],
            calls := calls s @ [DeviceWaitIdle, RendererDestroy (rnd_index (m_rndMethod s)),
                                RendererCreate (rnd_index method)]\<rparr>)"
  using assms rnd_index_lt [of "method"] rnd_index_lt [of "m_rndMethod s"]
  by (simp add: createRender_def renderer_create_ok renderer_destroy_ok vkDeviceWaitIdle_def
      rnd_index_inj)

lemma createRender_switch_calls:
  assumes "length (m_pRender s) = 2" "method \<noteq> eNone" "method \<noteq> m_rndMethod s"
  shows "\<exists>s'. createRender method s = Inr s' \<and> m_rndMethod s' = method \<and>
     calls s' = calls s @ switch_calls (m_rndMethod s) method"
proof (cases "m_rndMethod s = eNone")
  case True
  from createRender_from_none [OF assms(1,2) True] True show ?thesis
    by (simp add: switch_calls_def)
next
  case False
  from createRender_from_other [OF assms(1,2) False assms(3)] False show ?thesis
    by (simp add: switch_calls_def)
qed

lemma live_backends_switch:
  assumes "length (m_pRender s) = 2" "method \<noteq> eNone" "method \<noteq> m_rndMethod s"
    and "createRender method s = Inr s'"
    and "live_backends s \<subseteq> {rnd_index (m_rndMethod s)}"
  shows "live_backends s' = {rnd_index method}"
proof (cases "m_rndMethod s = eNone")
  case True
  have "live_of (m_pRender s) \<subseteq> {..<2}"
    using assms(1) by (auto simp: live_of_def)
  with assms(5) True have "live_of (m_pRender s) = {}"
    by (auto simp: live_backends_def)
  moreover have "m_pRender s' = (m_pRender s)[rnd_index method := (m_pRender s ! rnd_index method)\<lparr>constructed := True\<rparr>]"
    using createRender_from_none [OF assms(1,2) True] assms(4) by auto
  ultimately show ?thesis
    using assms(1) rnd_index_lt [OF assms(2)] by (simp add: live_backends_def live_of_create)
next
  case False
  let ?c = "rnd_index (m_rndMethod s)" and ?m = "rnd_index method"
  let ?d = "(m_pRender s)[?c := (m_pRender s ! ?c)\<lparr>constructed := False\<rparr>]"
  have ne: "?m \<noteq> ?c"
    using assms(3) by (simp add: rnd_index_inj)
  have "m_pRender s' = ?d[?m := (m_pRender s ! ?m)\<lparr>constructed := True\<rparr>]"
    using createRender_from_other [OF assms(1,2) False assms(3)] assms(4) by auto
  also have "\<dots> = ?d[?m := (?d ! ?m)\<lparr>constructed := True\<rparr>]"
    using ne by simp
  finally have "live_of (m_pRender s') = insert ?m (live_of (m_pRender s) - {?c})"
    using assms(1) rnd_index_lt [OF assms(2)] by (simp add: live_of_create live_of_destroy)
  with assms(5) show ?thesis
    by (auto simp: live_backends_def)
qed

lemma replay_switch_prefix:
  assumes "L \<subseteq> {rnd_index cur}" "L \<subseteq> {..<2}" "prefix p (switch_calls cur req)"
  shows "card (fold replay p L) \<le> 1"
proof -
  from assms(1,2) have L: "L = {} \<or> L = {rnd_index cur} \<and> cur \<noteq> eNone"
    by (cases cur) auto
  from assms(3) have "cur = eNone \<and> (p = [] \<or> p = [RendererCreate (rnd_index req)]) \<or>
      p = [] \<or> p = [DeviceWaitIdle] \<or> p = [DeviceWaitIdle, RendererDestroy (rnd_index cur)] \<or>
      p = [DeviceWaitIdle, RendererDestroy (rnd_index cur), RendererCreate (rnd_index req)]"
    by (auto simp: switch_calls_def prefix_Cons split: if_splits)
  with L show ?thesis
    by (auto simp: card_insert_if)
qed



text \<open>
  Claim C1, as the code has it. For a request of one of the two real backends:
  a request of the active method changes nothing; any other request succeeds, makes the
  requested method the active one, and logs, in this order, a wait for the idle device
  and the destruction of the active backend (both only when a backend was active) and
  then the creation of the requested backend. When only the active backend was
  constructed before, only the requested one is afterwards, and replaying any prefix of
  the logged calls never has two backends constructed at once.
\<close>

theorem createRender_switch:
  assumes "length (m_pRender s) = 2" and "method \<noteq> eNone"
  shows "\<exists>s'. createRender method s = Inr s' \<and>
     (method = m_rndMethod s \<longrightarrow> s' = s) \<and>
     (method \<noteq> m_rndMethod s \<longrightarrow>
        m_rndMethod s' = method \<and>
        calls s' = calls s @ switch_calls (m_rndMethod s) method \<and>
        (live_backends s \<subseteq> {rnd_index (m_rndMethod s)} \<longrightarrow>
           live_backends s' = {rnd_index method} \<and>
           (\<forall>p. prefix p (switch_calls (m_rndMethod s) method) \<longrightarrow>
                card (fold replay p (live_backends s)) \<le> 1)))"
proof (cases "method = m_rndMethod s")
  case True
  then show ?thesis
    by (simp add: createRender_def)
next
  case False
  from createRender_switch_calls [OF assms False]
  obtain s' where s': "createRender method s = Inr s'" "m_rndMethod s' = method"
      "calls s' = calls s @ switch_calls (m_rndMethod s) method"
    by blast
  moreover have "live_backends s' = {rnd_index method}"
    if "live_backends s \<subseteq> {rnd_index (m_rndMethod s)}"
    using live_backends_switch [OF assms False s'(1) that] .
  moreover have sub: "live_backends s \<subseteq> {..<2}"
    using assms(1) by (auto simp: live_backends_def live_of_def)
  have "card (fold replay p (live_backends s)) \<le> 1"
    if "live_backends s \<subseteq> {rnd_index (m_rndMethod s)}"
      and "prefix p (switch_calls (m_rndMethod s) method)" for p
    using replay_switch_prefix [OF that(1) sub that(2)] .
  ultimately show ?thesis
    using False by (intro exI [of _ s']) simp
qed



theorem createRender_switch_witness:
  "\<exists>s'. createRender eRayQuery running_RtxPipeline = Inr s' \<and>
        m_rndMethod s' = eRayQuery \<and>
        calls s' = [DeviceWaitIdle, RendererDestroy 0, RendererCreate 1] \<and>
        live_backends s' = {1} \<and>
        card (fold replay [DeviceWaitIdle, RendererDestroy 0] (live_backends running_RtxPipeline)) \<le> 1"
proof -
  have len: "length (m_pRender running_RtxPipeline) = 2"
    by (simp add: running_RtxPipeline_def initial_SampleExample_def)
  have live: "live_backends running_RtxPipeline \<subseteq> {rnd_index (m_rndMethod running_RtxPipeline)}"
    by (auto simp: live_backends_def live_of_def running_RtxPipeline_def initial_SampleExample_def less_Suc_eq)
  have pre: "prefix [DeviceWaitIdle, RendererDestroy 0] (switch_calls (m_rndMethod running_RtxPipeline) eRayQuery)"
    by (simp add: switch_calls_def running_RtxPipeline_def initial_SampleExample_def)
  have ne: "eRayQuery \<noteq> m_rndMethod running_RtxPipeline" "calls running_RtxPipeline = []"
      "switch_calls (m_rndMethod running_RtxPipeline) eRayQuery = [DeviceWaitIdle, RendererDestroy 0, RendererCreate 1]"
    by (simp_all add: switch_calls_def running_RtxPipeline_def initial_SampleExample_def)
  have real: "eRayQuery \<noteq> eNone"
    by simp
  from createRender_switch [OF len real]
  obtain s' where res: "createRender eRayQuery running_RtxPipeline = Inr s'"
    and sw: "eRayQuery \<noteq> m_rndMethod running_RtxPipeline \<longrightarrow>
        m_rndMethod s' = eRayQuery \<and>
        calls s' = calls running_RtxPipeline @ switch_calls (m_rndMethod running_RtxPipeline) eRayQuery \<and>
        (live_backends running_RtxPipeline \<subseteq> {rnd_index (m_rndMethod running_RtxPipeline)} \<longrightarrow>
           live_backends s' = {rnd_index eRayQuery} \<and>
           (\<forall>p. prefix p (switch_calls (m_rndMethod running_RtxPipeline) eRayQuery) \<longrightarrow>
                card (fold replay p (live_backends running_RtxPipeline)) \<le> 1))"
    by blast
  from sw ne(1) live
  have m: "m_rndMethod s' = eRayQuery"
    and c: "calls s' = calls running_RtxPipeline @ switch_calls (m_rndMethod running_RtxPipeline) eRayQuery"
    and l: "live_backends s' = {rnd_index eRayQuery}"
    and every: "\<forall>p. prefix p (switch_calls (m_rndMethod running_RtxPipeline) eRayQuery) \<longrightarrow>
                  card (fold replay p (live_backends running_RtxPipeline)) \<le> 1"
    by blast+
  from c l ne(2,3)
  have s': "calls s' = [DeviceWaitIdle, RendererDestroy 0, RendererCreate 1]" "live_backends s' = {1}"
    by simp_all
  from every pre
  have "card (fold replay [DeviceWaitIdle, RendererDestroy 0] (live_backends running_RtxPipeline)) \<le> 1"
    by blast
  with res m s' show ?thesis
    by blast
qed



text \<open>
  The claim as stated asks for a wait for the idle device in every switch. From the
  initial state no wait is logged; and a request of \<open>eNone\<close> while a backend is active
  indexes the array at 2.
\<close>

theorem createRender_claim_counterexample:
  "map_sum id calls (createRender eRtxPipeline initial_SampleExample) = Inr [RendererCreate 0]
   \<and> map_sum id calls (createRender eRtxPipeline initial_SampleExample)
       \<noteq> Inr (calls initial_SampleExample @ spec_switch_calls eNone eRtxPipeline)
   \<and> createRender eNone running_RtxPipeline = Inl (OutOfBounds 2)"
  by (simp add: createRender_def renderer_create_def renderer_destroy_def render_call_def
      vkDeviceWaitIdle_def initial_SampleExample_def running_RtxPipeline_def spec_switch_calls_def)



subsection \<open>Bounds of the backend array\<close>

lemma createRender_to_none:
  assumes "length (m_pRender s) = 2" "m_rndMethod s \<noteq> eNone"
  shows "createRender eNone s = Inl (OutOfBounds 2)"
  using assms rnd_index_lt [of "m_rndMethod s"]
  by (simp add: createRender_def renderer_destroy_ok vkDeviceWaitIdle_def
      renderer_create_def render_call_def)

lemma createRender_fault_iff:
  assumes "length (m_pRender s) = 2"
  shows "(\<exists>e. createRender method s = Inl e) \<longleftrightarrow> method = eNone \<and> m_rndMethod s \<noteq> eNone"
    and "createRender method s = Inl (OutOfBounds 2) \<longleftrightarrow> method = eNone \<and> m_rndMethod s \<noteq> eNone"
proof -
  consider (same) "method = m_rndMethod s" | (real) "method \<noteq> m_rndMethod s" "method \<noteq> eNone"
    | (none) "method = eNone" "m_rndMethod s \<noteq> eNone"
    by (cases "method = m_rndMethod s"; cases "method = eNone") auto
  then have "((\<exists>e. createRender method s = Inl e) \<longleftrightarrow> method = eNone \<and> m_rndMethod s \<noteq> eNone)
     \<and> (createRender method s = Inl (OutOfBounds 2) \<longleftrightarrow> method = eNone \<and> m_rndMethod s \<noteq> eNone)"
  proof cases
    case same
    then show ?thesis
      by (auto simp: createRender_def)
  next
    case real
    from createRender_switch_calls [OF assms real(2,1)] real show ?thesis
      by auto
  next
    case none
    with createRender_to_none [OF assms none(2)] show ?thesis
      by simp
  qed
  then show "(\<exists>e. createRender method s = Inl e) \<longleftrightarrow> method = eNone \<and> m_rndMethod s \<noteq> eNone"
    and "createRender method s = Inl (OutOfBounds 2) \<longleftrightarrow> method = eNone \<and> m_rndMethod s \<noteq> eNone"
    by simp_all
qed

lemma render_call_id_ok:
  "i < length (m_pRender s) \<Longrightarrow> render_call i (\<lambda>r. r) c s = Inr (s\<lparr>calls := calls s @ [c]\<rparr>)"
  by (simp add: render_call_def)

lemma render_call_beyond:
  "\<not> i < length (m_pRender s) \<Longrightarrow> render_call i f c s = Inl (OutOfBounds i)"
  by (simp add: render_call_def)

lemma renderScene_fault_iff:
  assumes "length (m_pRender s) = 2"
  shows "renderScene s = Inl (OutOfBounds 2) \<longleftrightarrow>
          m_rndMethod s = eNone \<and> frame (m_rtxState s) <s m_maxFrames s
          \<and> \<not> (m_descaling s \<and> m_descalingLevel s = 0)"
proof (cases "m_rndMethod s = eNone")
  case True
  with assms show ?thesis
    by (simp add: renderScene_def Let_def render_call_beyond word_sless_alt word_sle_eq not_le)
next
  case False
  with assms rnd_index_lt [OF False] show ?thesis
    by (simp add: renderScene_def Let_def render_call_id_ok)
qed

text \<open>
  Claim C10. The array has two entries and \<open>eNone\<close> has the value 2. Every real method
  indexes inside the array. \<open>createRender\<close> leaves the array exactly when \<open>eNone\<close> is
  requested while another method is active; \<open>renderScene\<close> leaves it exactly when
  no backend is active and the early return is not taken (and the descaling division
  is defined).
\<close>

theorem render_index_bounds:
  assumes "length (m_pRender s) = 2"
  shows "rnd_index eNone = length (m_pRender s)
     \<and> (method \<noteq> eNone \<longrightarrow> rnd_index method < length (m_pRender s))
     \<and> ((\<exists>e. createRender method s = Inl e) \<longleftrightarrow> method = eNone \<and> m_rndMethod s \<noteq> eNone)
     \<and> (createRender method s = Inl (OutOfBounds 2) \<longleftrightarrow> method = eNone \<and> m_rndMethod s \<noteq> eNone)
     \<and> (renderScene s = Inl (OutOfBounds 2) \<longleftrightarrow>
          m_rndMethod s = eNone \<and> frame (m_rtxState s) <s m_maxFrames s
          \<and> \<not> (m_descaling s \<and> m_descalingLevel s = 0))"
proof -
  have "rnd_index eNone = length (m_pRender s)"
    using assms by simp
  moreover have "method \<noteq> eNone \<longrightarrow> rnd_index method < length (m_pRender s)"
    using assms rnd_index_lt [of "method"] by simp
  moreover note createRender_fault_iff [OF assms, of "method"] renderScene_fault_iff [OF assms]
  ultimately show ?thesis
    by (intro conjI)
qed

theorem render_index_bounds_witness:
  "createRender eNone running_RtxPipeline = Inl (OutOfBounds 2)
   \<and> renderScene initial_SampleExample = Inl (OutOfBounds 2)
   \<and> \<not> (\<exists>e. createRender eRayQuery running_RtxPipeline = Inl e)"
proof -
  have len: "length (m_pRender running_RtxPipeline) = 2" "length (m_pRender initial_SampleExample) = 2"
    by (simp_all add: running_RtxPipeline_def initial_SampleExample_def)
  have st: "m_rndMethod running_RtxPipeline = eRtxPipeline" "m_rndMethod initial_SampleExample = eNone"
    "frame (m_rtxState initial_SampleExample) <s m_maxFrames initial_SampleExample"
    "\<not> m_descaling initial_SampleExample"
    by (simp_all add: running_RtxPipeline_def initial_SampleExample_def word_sless_alt)
  show ?thesis
    using render_index_bounds [OF len(1), of eNone] render_index_bounds [OF len(2), of eNone]
      render_index_bounds [OF len(1), of eRayQuery] st
    by simp
qed


section \<open>Properties of the base class\<close>

subsection \<open>The depth format chosen by \<open>HeadlessAppVK::setup\<close>\<close>

lemma driver_emit [simp]: "driver (emit c w) = driver w"
  by (simp add: emit_def)

lemma probeDepthFormat_driver: "driver (vk (probeDepthFormat fs a)) = driver (vk a)"
  by (induction fs arbitrary: a)
     (simp_all add: vkGetPhysicalDeviceFormatProperties_def Let_def)

lemma qualifies_emit: "qualifies (emit c w) = qualifies w"
  by (simp add: qualifies_def fun_eq_iff)

lemma probeDepthFormat_Cons:
  "probeDepthFormat (f # fs) a =
     (if qualifies (vk a) f
      then a\<lparr>vk := emit (GetPhysicalDeviceFormatProperties f) (vk a), m_depthFormat := f\<rparr>
      else probeDepthFormat fs (a\<lparr>vk := emit (GetPhysicalDeviceFormatProperties f) (vk a)\<rparr>))"
  by (simp add: vkGetPhysicalDeviceFormatProperties_def Let_def qualifies_def)

lemma probeDepthFormat_format:
  "m_depthFormat (probeDepthFormat fs a) =
     (case find (qualifies (vk a)) fs of Some f \<Rightarrow> f | None \<Rightarrow> m_depthFormat a)"
proof (induction fs arbitrary: a)
  case Nil
  show ?case by simp
next
  case (Cons f fs)
  show ?case
    unfolding probeDepthFormat_Cons
    by (simp add: Cons.IH qualifies_emit del: probeDepthFormat.simps split: option.splits)
qed

lemma vkGetDeviceQueue_eq:
  "vkGetDeviceQueue q w = (nextHandle w, emit (GetDeviceQueue q) (w\<lparr>nextHandle := Suc (nextHandle w)\<rparr>))"
  by (simp add: vkGetDeviceQueue_def new_handle_def)

lemma vkCreateCommandPool_eq:
  "vkCreateCommandPool w =
     (nextHandle w, emit (CreateCommandPool (nextHandle w)) (w\<lparr>nextHandle := Suc (nextHandle w)\<rparr>))"
  by (simp add: vkCreateCommandPool_def new_handle_def)

lemma vkCreatePipelineCache_eq:
  "vkCreatePipelineCache w =
     (nextHandle w, emit (CreatePipelineCache (nextHandle w)) (w\<lparr>nextHandle := Suc (nextHandle w)\<rparr>))"
  by (simp add: vkCreatePipelineCache_def new_handle_def)

lemma nextHandle_emit [simp]: "nextHandle (emit c w) = nextHandle w"
  by (simp add: emit_def)

lemma qualifies_nextHandle: "qualifies (w\<lparr>nextHandle := n\<rparr>) = qualifies w"
  by (simp add: qualifies_def fun_eq_iff)

lemma setup_depth_format_given:
  "df \<noteq> VK_FORMAT_UNDEFINED \<Longrightarrow> m_depthFormat (setup_HeadlessAppVK device q w h cf df a) = df"
  by (simp add: setup_HeadlessAppVK_def vkGetDeviceQueue_eq vkCreateCommandPool_eq
      vkCreatePipelineCache_eq)

lemma setup_depth_format_probed:
  "m_depthFormat (setup_HeadlessAppVK device q w h cf VK_FORMAT_UNDEFINED a) =
     (case find (qualifies device) depthFormatCandidates of
        Some f \<Rightarrow> f
      | None \<Rightarrow> VK_FORMAT_UNDEFINED)"
  by (simp add: setup_HeadlessAppVK_def vkGetDeviceQueue_eq vkCreateCommandPool_eq
      vkCreatePipelineCache_eq probeDepthFormat_format qualifies_emit qualifies_nextHandle
      split: option.splits)

text \<open>
  Claim C2, as the code has it. Called with an undefined depth format,
  \<open>HeadlessAppVK::setup\<close> leaves the first of the three candidates, in their order of
  priority, whose optimal-tiling features include the depth/stencil attachment bit; when
  none qualifies it returns all the same and the depth format stays undefined. A depth
  format given by the caller is kept.
\<close>

theorem setup_depth_format:
  "m_depthFormat (setup_HeadlessAppVK device q w h cf df a) =
     (if df = VK_FORMAT_UNDEFINED
      then case find (qualifies device) depthFormatCandidates of
             Some f \<Rightarrow> f
           | None \<Rightarrow> VK_FORMAT_UNDEFINED
      else df)"
  using setup_depth_format_given [of df device q w h cf a]
    setup_depth_format_probed [of device q w h cf a]
  by (cases "df = VK_FORMAT_UNDEFINED") simp_all


theorem setup_depth_format_witness:
  "m_depthFormat (setup_HeadlessAppVK (new_world example_driver) 0 1008 660 VK_FORMAT_B8G8R8A8_UNORM
      VK_FORMAT_UNDEFINED (initial_HeadlessAppVK example_driver)) = VK_FORMAT_D32_SFLOAT_S8_UINT
   \<and> m_depthFormat (setup_HeadlessAppVK (new_world example_driver) 0 1008 660 VK_FORMAT_B8G8R8A8_UNORM
      VK_FORMAT_D32_SFLOAT (initial_HeadlessAppVK example_driver)) = VK_FORMAT_D32_SFLOAT"
proof -
  have "find (qualifies (new_world example_driver)) depthFormatCandidates = Some VK_FORMAT_D32_SFLOAT_S8_UINT"
    by (simp add: qualifies_def depthFormatCandidates_def new_world_def example_driver_def
      VK_FORMAT_D24_UNORM_S8_UINT_def VK_FORMAT_D32_SFLOAT_S8_UINT_def VK_FORMAT_D16_UNORM_S8_UINT_def
      VK_FORMAT_FEATURE_DEPTH_STENCIL_ATTACHMENT_BIT_def)
  moreover have "VK_FORMAT_D32_SFLOAT \<noteq> VK_FORMAT_UNDEFINED"
    by (simp add: VK_FORMAT_UNDEFINED_def VK_FORMAT_D32_SFLOAT_def)
  ultimately show ?thesis
    using setup_depth_format [of "new_world example_driver" 0 1008 660 VK_FORMAT_B8G8R8A8_UNORM
      VK_FORMAT_UNDEFINED "initial_HeadlessAppVK example_driver"]
    setup_depth_format [of "new_world example_driver" 0 1008 660 VK_FORMAT_B8G8R8A8_UNORM
      VK_FORMAT_D32_SFLOAT "initial_HeadlessAppVK example_driver"]
    by simp
qed

text \<open>
  On a device where no candidate qualifies the specification asks for a fatal error;
  the function returns with the format undefined.
\<close>

theorem setup_no_depth_format_counterexample:
  "spec_probeDepthFormat (optimalTilingFeatures no_depth_driver) = Inl FatalConfiguration
   \<and> m_depthFormat (setup_HeadlessAppVK (new_world no_depth_driver) 0 1008 660 VK_FORMAT_B8G8R8A8_UNORM
        VK_FORMAT_UNDEFINED (initial_HeadlessAppVK no_depth_driver)) = VK_FORMAT_UNDEFINED
   \<and> Inr (m_depthFormat (setup_HeadlessAppVK (new_world no_depth_driver) 0 1008 660 VK_FORMAT_B8G8R8A8_UNORM
        VK_FORMAT_UNDEFINED (initial_HeadlessAppVK no_depth_driver)))
       \<noteq> spec_probeDepthFormat (optimalTilingFeatures no_depth_driver)"
proof -
  have none: "find (qualifies (new_world no_depth_driver)) depthFormatCandidates = None"
    by (simp add: qualifies_def depthFormatCandidates_def new_world_def no_depth_driver_def
      VK_FORMAT_FEATURE_DEPTH_STENCIL_ATTACHMENT_BIT_def)
  have spec: "spec_probeDepthFormat (optimalTilingFeatures no_depth_driver) = Inl FatalConfiguration"
    by (simp add: spec_probeDepthFormat_def depthFormatCandidates_def no_depth_driver_def
      VK_FORMAT_FEATURE_DEPTH_STENCIL_ATTACHMENT_BIT_def)
  show ?thesis
    by (simp add: spec setup_depth_format_probed none)
qed


subsection \<open>The choice of a memory type\<close>















subsection \<open>Creating the colour and the depth target\<close>

lemma release_fields:
  "driver (release v i m w) = driver w"
  "nextHandle (release v i m w) = nextHandle w"
  "fences (release v i m w) = fences w"
  "commandBuffers (release v i m w) = commandBuffers w"
  "in_flight (release v i m w) = in_flight w"
  "images (release v i m w) = (if i \<noteq> VK_NULL_HANDLE then (images w)(i := None) else images w)"
  "memories (release v i m w) = (if m \<noteq> VK_NULL_HANDLE then (memories w)(m := None) else memories w)"
  "imageViews (release v i m w) = (if v \<noteq> VK_NULL_HANDLE then (imageViews w)(v := None) else imageViews w)"
  "vk_calls (release v i m w) = vk_calls w @ release_calls v i m"
  by (simp_all add: release_def release_calls_def Let_def vkDestroyImageView_def vkDestroyImage_def
      vkFreeMemory_def emit_def)

lemma color_release:
  "(let a1 = (if m_colorView a \<noteq> VK_NULL_HANDLE
                then a\<lparr>vk := vkDestroyImageView (m_colorView a) (vk a)\<rparr> else a);
          a2 = (if m_colorImage a1 \<noteq> VK_NULL_HANDLE
                then a1\<lparr>vk := vkDestroyImage (m_colorImage a1) (vk a1)\<rparr> else a1);
          a3 = (if m_colorMemory a2 \<noteq> VK_NULL_HANDLE
                then a2\<lparr>vk := vkFreeMemory (m_colorMemory a2) (vk a2)\<rparr> else a2)
    in F a3) = F (a\<lparr>vk := release (m_colorView a) (m_colorImage a) (m_colorMemory a) (vk a)\<rparr>)"
  by (simp add: release_def Let_def)

lemma vkCreateImage_eq:
  "vkCreateImage info w =
     (nextHandle w, w\<lparr>images := (images w)(nextHandle w \<mapsto> info), nextHandle := Suc (nextHandle w),
                       vk_calls := vk_calls w @ [CreateImage (nextHandle w)]\<rparr>)"
  by (simp add: vkCreateImage_def new_handle_def emit_def)

lemma vkAllocateMemory_eq:
  "vkAllocateMemory info w =
     (nextHandle w, w\<lparr>memories := (memories w)(nextHandle w \<mapsto> info), nextHandle := Suc (nextHandle w),
                       vk_calls := vk_calls w @ [AllocateMemory (nextHandle w)]\<rparr>)"
  by (simp add: vkAllocateMemory_def new_handle_def emit_def)

lemma vkCreateImageView_eq:
  "vkCreateImageView info w =
     (nextHandle w, w\<lparr>imageViews := (imageViews w)(nextHandle w \<mapsto> info), nextHandle := Suc (nextHandle w),
                       vk_calls := vk_calls w @ [CreateImageView (nextHandle w)]\<rparr>)"
  by (simp add: vkCreateImageView_def new_handle_def emit_def)

lemma createColorBuffer_unfold:
  "createColorBuffer a =
     (let w = release (m_colorView a) (m_colorImage a) (m_colorMemory a) (vk a);
          n = nextHandle (vk a);
          info = color_image_info a
      in case getMemoryType a (imageMemoryTypeBits (driver (vk a)) info) VK_MEMORY_PROPERTY_DEVICE_LOCAL_BIT of
           Inl e \<Rightarrow> Inl e
         | Inr idx \<Rightarrow>
             Inr (a\<lparr>vk := w\<lparr>images := (images w)(n \<mapsto> info),
                              memories := (memories w)(Suc n \<mapsto>
                                 \<lparr>allocationSize = imageMemorySize (driver (vk a)) info, memoryTypeIndex = idx\<rparr>),
                              imageViews := (imageViews w)(Suc (Suc n) \<mapsto>
                                 \<lparr>ivci_image = n, ivci_format = m_colorFormat a,
                                  ivci_aspectMask = VK_IMAGE_ASPECT_COLOR_BIT\<rparr>),
                              nextHandle := Suc (Suc (Suc n)),
                              vk_calls := vk_calls w @ [CreateImage n, AllocateMemory (Suc n),
                                 BindImageMemory n (Suc n), CreateImageView (Suc (Suc n))]\<rparr>,
                    m_colorImage := n, m_colorMemory := Suc n, m_colorView := Suc (Suc n)\<rparr>))"
  unfolding createColorBuffer_def color_release
  by (simp add: Let_def vkCreateImage_eq vkAllocateMemory_eq vkCreateImageView_eq
      vkGetImageMemoryRequirements_def vkBindImageMemory_def emit_def getMemoryType_def
      release_fields color_image_info_def split: sum.splits)


lemma dom_replace_first:
  assumes "dom m = {c, d} - {0}" "c < n" "d < n" "c = d \<longrightarrow> c = 0"
  shows "dom ((if c \<noteq> 0 then m(c := None) else m)(n \<mapsto> x)) = {n, d} - {0::nat}"
proof (cases "c = 0")
  case True
  with assms show ?thesis by auto
next
  case False
  with assms have "c \<noteq> d" by simp
  with False assms(1-3) show ?thesis by auto
qed

lemma dom_replace_second:
  assumes "dom m = {c, d} - {0}" "c < n" "d < n" "c = d \<longrightarrow> c = 0"
  shows "dom ((if d \<noteq> 0 then m(d := None) else m)(n \<mapsto> x)) = {c, n} - {0::nat}"
proof -
  from assms have "dom m = {d, c} - {0}" "d = c \<longrightarrow> d = 0"
    by auto
  from dom_replace_first [OF this(1) assms(3,2) this(2), of x] show ?thesis
    by (simp add: insert_commute)
qed

lemma createColorBuffer_success:
  assumes "createColorBuffer a = Inr a'"
  obtains idx where
    "getMemoryType a (imageMemoryTypeBits (driver (vk a)) (color_image_info a))
       VK_MEMORY_PROPERTY_DEVICE_LOCAL_BIT = Inr idx"
    "m_colorImage a' = nextHandle (vk a)" "m_colorMemory a' = Suc (nextHandle (vk a))"
    "m_colorView a' = Suc (Suc (nextHandle (vk a)))"
    "m_depthImage a' = m_depthImage a" "m_depthMemory a' = m_depthMemory a"
    "m_depthView a' = m_depthView a"
    "m_size a' = m_size a" "m_colorFormat a' = m_colorFormat a" "m_depthFormat a' = m_depthFormat a"
    "driver (vk a') = driver (vk a)"
    "nextHandle (vk a') = Suc (Suc (Suc (nextHandle (vk a))))"
    "images (vk a') = (if m_colorImage a \<noteq> VK_NULL_HANDLE
                       then (images (vk a))(m_colorImage a := None) else images (vk a))
                      (nextHandle (vk a) \<mapsto> color_image_info a)"
    "memories (vk a') = (if m_colorMemory a \<noteq> VK_NULL_HANDLE
                       then (memories (vk a))(m_colorMemory a := None) else memories (vk a))
                      (Suc (nextHandle (vk a)) \<mapsto>
                         \<lparr>allocationSize = imageMemorySize (driver (vk a)) (color_image_info a),
                          memoryTypeIndex = idx\<rparr>)"
    "imageViews (vk a') = (if m_colorView a \<noteq> VK_NULL_HANDLE
                       then (imageViews (vk a))(m_colorView a := None) else imageViews (vk a))
                      (Suc (Suc (nextHandle (vk a))) \<mapsto>
                         \<lparr>ivci_image = nextHandle (vk a), ivci_format = m_colorFormat a,
                          ivci_aspectMask = VK_IMAGE_ASPECT_COLOR_BIT\<rparr>)"
    "vk_calls (vk a') = vk_calls (vk a) @ release_calls (m_colorView a) (m_colorImage a) (m_colorMemory a)
        @ [CreateImage (nextHandle (vk a)), AllocateMemory (Suc (nextHandle (vk a))),
           BindImageMemory (nextHandle (vk a)) (Suc (nextHandle (vk a))),
           CreateImageView (Suc (Suc (nextHandle (vk a))))]"
proof (cases "getMemoryType a (imageMemoryTypeBits (driver (vk a)) (color_image_info a))
       VK_MEMORY_PROPERTY_DEVICE_LOCAL_BIT")
  case (Inl e)
  with assms show ?thesis
    by (simp add: createColorBuffer_unfold Let_def)
next
  case (Inr idx)
  with assms have a': "a' = a\<lparr>vk := (release (m_colorView a) (m_colorImage a) (m_colorMemory a) (vk a))
            \<lparr>images := (images (release (m_colorView a) (m_colorImage a) (m_colorMemory a) (vk a)))
                         (nextHandle (vk a) \<mapsto> color_image_info a),
             memories := (memories (release (m_colorView a) (m_colorImage a) (m_colorMemory a) (vk a)))
                (Suc (nextHandle (vk a)) \<mapsto>
                   \<lparr>allocationSize = imageMemorySize (driver (vk a)) (color_image_info a), memoryTypeIndex = idx\<rparr>),
             imageViews := (imageViews (release (m_colorView a) (m_colorImage a) (m_colorMemory a) (vk a)))
                (Suc (Suc (nextHandle (vk a))) \<mapsto>
                   \<lparr>ivci_image = nextHandle (vk a), ivci_format = m_colorFormat a,
                    ivci_aspectMask = VK_IMAGE_ASPECT_COLOR_BIT\<rparr>),
             nextHandle := Suc (Suc (Suc (nextHandle (vk a)))),
             vk_calls := vk_calls (release (m_colorView a) (m_colorImage a) (m_colorMemory a) (vk a))
                @ [CreateImage (nextHandle (vk a)), AllocateMemory (Suc (nextHandle (vk a))),
                   BindImageMemory (nextHandle (vk a)) (Suc (nextHandle (vk a))),
                   CreateImageView (Suc (Suc (nextHandle (vk a))))]\<rparr>,
          m_colorImage := nextHandle (vk a), m_colorMemory := Suc (nextHandle (vk a)),
          m_colorView := Suc (Suc (nextHandle (vk a)))\<rparr>"
    by (simp add: createColorBuffer_unfold Let_def)
  show ?thesis
    by (rule that [OF Inr]) (simp_all add: a' release_fields)
qed

lemma createColorBuffer_wf:
  assumes "targets_wf a" "createColorBuffer a = Inr a'"
  shows "targets_wf a'" "color_target_alive a'"
proof -
  from assms(2) obtain idx where
    h: "m_colorImage a' = nextHandle (vk a)" "m_colorMemory a' = Suc (nextHandle (vk a))"
    "m_colorView a' = Suc (Suc (nextHandle (vk a)))"
    "m_depthImage a' = m_depthImage a" "m_depthMemory a' = m_depthMemory a"
    "m_depthView a' = m_depthView a"
    "nextHandle (vk a') = Suc (Suc (Suc (nextHandle (vk a))))"
    and i: "images (vk a') = (if m_colorImage a \<noteq> VK_NULL_HANDLE
                       then (images (vk a))(m_colorImage a := None) else images (vk a))
                      (nextHandle (vk a) \<mapsto> color_image_info a)"
    and m: "memories (vk a') = (if m_colorMemory a \<noteq> VK_NULL_HANDLE
                       then (memories (vk a))(m_colorMemory a := None) else memories (vk a))
                      (Suc (nextHandle (vk a)) \<mapsto>
                         \<lparr>allocationSize = imageMemorySize (driver (vk a)) (color_image_info a),
                          memoryTypeIndex = idx\<rparr>)"
    and v: "imageViews (vk a') = (if m_colorView a \<noteq> VK_NULL_HANDLE
                       then (imageViews (vk a))(m_colorView a := None) else imageViews (vk a))
                      (Suc (Suc (nextHandle (vk a))) \<mapsto>
                         \<lparr>ivci_image = nextHandle (vk a), ivci_format = m_colorFormat a,
                          ivci_aspectMask = VK_IMAGE_ASPECT_COLOR_BIT\<rparr>)"
    by (rule createColorBuffer_success)
  from assms(1) have pos: "0 < nextHandle (vk a)"
    and di: "dom (images (vk a)) = {m_colorImage a, m_depthImage a} - {0}"
    and dm: "dom (memories (vk a)) = {m_colorMemory a, m_depthMemory a} - {0}"
    and dv: "dom (imageViews (vk a)) = {m_colorView a, m_depthView a} - {0}"
    and lt: "m_colorImage a < nextHandle (vk a)" "m_depthImage a < nextHandle (vk a)"
      "m_colorMemory a < nextHandle (vk a)" "m_depthMemory a < nextHandle (vk a)"
      "m_colorView a < nextHandle (vk a)" "m_depthView a < nextHandle (vk a)"
    and ne: "m_colorImage a = m_depthImage a \<longrightarrow> m_colorImage a = 0"
      "m_colorMemory a = m_depthMemory a \<longrightarrow> m_colorMemory a = 0"
      "m_colorView a = m_depthView a \<longrightarrow> m_colorView a = 0"
    by (simp_all add: targets_wf_def VK_NULL_HANDLE_def)
  have "dom (images (vk a')) = {m_colorImage a', m_depthImage a'} - {VK_NULL_HANDLE}"
    unfolding i h VK_NULL_HANDLE_def by (rule dom_replace_first [OF di lt(1,2) ne(1)])
  moreover have "dom (memories (vk a')) = {m_colorMemory a', m_depthMemory a'} - {VK_NULL_HANDLE}"
    unfolding m h VK_NULL_HANDLE_def
    by (rule dom_replace_first [OF dm]) (use lt ne in simp_all)
  moreover have "dom (imageViews (vk a')) = {m_colorView a', m_depthView a'} - {VK_NULL_HANDLE}"
    unfolding v h VK_NULL_HANDLE_def
    by (rule dom_replace_first [OF dv]) (use lt ne in simp_all)
  moreover have "m_colorImage a' \<noteq> m_depthImage a'" "m_colorMemory a' \<noteq> m_depthMemory a'"
      "m_colorView a' \<noteq> m_depthView a'"
    using lt by (simp_all add: h)
  ultimately show "targets_wf a'"
    using pos lt by (simp add: targets_wf_def h)
  show "color_target_alive a'"
    using pos by (simp add: color_target_alive_def h i m v VK_NULL_HANDLE_def)
qed


lemma depth_release:
  "(let a1 = (if m_depthView a \<noteq> VK_NULL_HANDLE
                then a\<lparr>vk := vkDestroyImageView (m_depthView a) (vk a)\<rparr> else a);
          a2 = (if m_depthImage a1 \<noteq> VK_NULL_HANDLE
                then a1\<lparr>vk := vkDestroyImage (m_depthImage a1) (vk a1)\<rparr> else a1);
          a3 = (if m_depthMemory a2 \<noteq> VK_NULL_HANDLE
                then a2\<lparr>vk := vkFreeMemory (m_depthMemory a2) (vk a2)\<rparr> else a2)
    in F a3) = F (a\<lparr>vk := release (m_depthView a) (m_depthImage a) (m_depthMemory a) (vk a)\<rparr>)"
  by (simp add: release_def Let_def)

lemma createDepthBuffer_unfold:
  "createDepthBuffer a =
     (let w = release (m_depthView a) (m_depthImage a) (m_depthMemory a) (vk a);
          n = nextHandle (vk a);
          info = depth_image_info a
      in case getMemoryType a (imageMemoryTypeBits (driver (vk a)) info) VK_MEMORY_PROPERTY_DEVICE_LOCAL_BIT of
           Inl e \<Rightarrow> Inl e
         | Inr idx \<Rightarrow>
             Inr (a\<lparr>vk := w\<lparr>images := (images w)(n \<mapsto> info),
                              memories := (memories w)(Suc n \<mapsto>
                                 \<lparr>allocationSize = imageMemorySize (driver (vk a)) info, memoryTypeIndex = idx\<rparr>),
                              imageViews := (imageViews w)(Suc (Suc n) \<mapsto>
                                 \<lparr>ivci_image = n, ivci_format = m_depthFormat a,
                                  ivci_aspectMask = depth_aspectMask (m_depthFormat a)\<rparr>),
                              nextHandle := Suc (Suc (Suc n)),
                              vk_calls := vk_calls w @ [CreateImage n, AllocateMemory (Suc n),
                                 BindImageMemory n (Suc n), CreateImageView (Suc (Suc n))]\<rparr>,
                    m_depthImage := n, m_depthMemory := Suc n, m_depthView := Suc (Suc n)\<rparr>))"
  unfolding createDepthBuffer_def depth_release
  by (simp add: Let_def vkCreateImage_eq vkAllocateMemory_eq vkCreateImageView_eq
      vkGetImageMemoryRequirements_def vkBindImageMemory_def emit_def getMemoryType_def
      release_fields depth_image_info_def depth_aspectMask_def split: sum.splits)


lemma createDepthBuffer_success:
  assumes "createDepthBuffer a = Inr a'"
  obtains idx where
    "getMemoryType a (imageMemoryTypeBits (driver (vk a)) (depth_image_info a))
       VK_MEMORY_PROPERTY_DEVICE_LOCAL_BIT = Inr idx"
    "m_depthImage a' = nextHandle (vk a)" "m_depthMemory a' = Suc (nextHandle (vk a))"
    "m_depthView a' = Suc (Suc (nextHandle (vk a)))"
    "m_colorImage a' = m_colorImage a" "m_colorMemory a' = m_colorMemory a"
    "m_colorView a' = m_colorView a"
    "m_size a' = m_size a" "m_depthFormat a' = m_depthFormat a" "m_colorFormat a' = m_colorFormat a"
    "driver (vk a') = driver (vk a)"
    "nextHandle (vk a') = Suc (Suc (Suc (nextHandle (vk a))))"
    "images (vk a') = (if m_depthImage a \<noteq> VK_NULL_HANDLE
                       then (images (vk a))(m_depthImage a := None) else images (vk a))
                      (nextHandle (vk a) \<mapsto> depth_image_info a)"
    "memories (vk a') = (if m_depthMemory a \<noteq> VK_NULL_HANDLE
                       then (memories (vk a))(m_depthMemory a := None) else memories (vk a))
                      (Suc (nextHandle (vk a)) \<mapsto>
                         \<lparr>allocationSize = imageMemorySize (driver (vk a)) (depth_image_info a),
                          memoryTypeIndex = idx\<rparr>)"
    "imageViews (vk a') = (if m_depthView a \<noteq> VK_NULL_HANDLE
                       then (imageViews (vk a))(m_depthView a := None) else imageViews (vk a))
                      (Suc (Suc (nextHandle (vk a))) \<mapsto>
                         \<lparr>ivci_image = nextHandle (vk a), ivci_format = m_depthFormat a,
                          ivci_aspectMask = depth_aspectMask (m_depthFormat a)\<rparr>)"
    "vk_calls (vk a') = vk_calls (vk a) @ release_calls (m_depthView a) (m_depthImage a) (m_depthMemory a)
        @ [CreateImage (nextHandle (vk a)), AllocateMemory (Suc (nextHandle (vk a))),
           BindImageMemory (nextHandle (vk a)) (Suc (nextHandle (vk a))),
           CreateImageView (Suc (Suc (nextHandle (vk a))))]"
proof (cases "getMemoryType a (imageMemoryTypeBits (driver (vk a)) (depth_image_info a))
       VK_MEMORY_PROPERTY_DEVICE_LOCAL_BIT")
  case (Inl e)
  with assms show ?thesis
    by (simp add: createDepthBuffer_unfold Let_def)
next
  case (Inr idx)
  with assms have a': "a' = a\<lparr>vk := (release (m_depthView a) (m_depthImage a) (m_depthMemory a) (vk a))
            \<lparr>images := (images (release (m_depthView a) (m_depthImage a) (m_depthMemory a) (vk a)))
                         (nextHandle (vk a) \<mapsto> depth_image_info a),
             memories := (memories (release (m_depthView a) (m_depthImage a) (m_depthMemory a) (vk a)))
                (Suc (nextHandle (vk a)) \<mapsto>
                   \<lparr>allocationSize = imageMemorySize (driver (vk a)) (depth_image_info a), memoryTypeIndex = idx\<rparr>),
             imageViews := (imageViews (release (m_depthView a) (m_depthImage a) (m_depthMemory a) (vk a)))
                (Suc (Suc (nextHandle (vk a))) \<mapsto>
                   \<lparr>ivci_image = nextHandle (vk a), ivci_format = m_depthFormat a,
                    ivci_aspectMask = depth_aspectMask (m_depthFormat a)\<rparr>),
             nextHandle := Suc (Suc (Suc (nextHandle (vk a)))),
             vk_calls := vk_calls (release (m_depthView a) (m_depthImage a) (m_depthMemory a) (vk a))
                @ [CreateImage (nextHandle (vk a)), AllocateMemory (Suc (nextHandle (vk a))),
                   BindImageMemory (nextHandle (vk a)) (Suc (nextHandle (vk a))),
                   CreateImageView (Suc (Suc (nextHandle (vk a))))]\<rparr>,
          m_depthImage := nextHandle (vk a), m_depthMemory := Suc (nextHandle (vk a)),
          m_depthView := Suc (Suc (nextHandle (vk a)))\<rparr>"
    by (simp add: createDepthBuffer_unfold Let_def)
  show ?thesis
    by (rule that [OF Inr]) (simp_all add: a' release_fields)
qed

lemma createDepthBuffer_wf:
  assumes "targets_wf a" "createDepthBuffer a = Inr a'"
  shows "targets_wf a'" "depth_target_alive a'"
proof -
  from assms(2) obtain idx where
    h: "m_depthImage a' = nextHandle (vk a)" "m_depthMemory a' = Suc (nextHandle (vk a))"
    "m_depthView a' = Suc (Suc (nextHandle (vk a)))"
    "m_colorImage a' = m_colorImage a" "m_colorMemory a' = m_colorMemory a"
    "m_colorView a' = m_colorView a"
    "nextHandle (vk a') = Suc (Suc (Suc (nextHandle (vk a))))"
    and i: "images (vk a') = (if m_depthImage a \<noteq> VK_NULL_HANDLE
                       then (images (vk a))(m_depthImage a := None) else images (vk a))
                      (nextHandle (vk a) \<mapsto> depth_image_info a)"
    and m: "memories (vk a') = (if m_depthMemory a \<noteq> VK_NULL_HANDLE
                       then (memories (vk a))(m_depthMemory a := None) else memories (vk a))
                      (Suc (nextHandle (vk a)) \<mapsto>
                         \<lparr>allocationSize = imageMemorySize (driver (vk a)) (depth_image_info a),
                          memoryTypeIndex = idx\<rparr>)"
    and v: "imageViews (vk a') = (if m_depthView a \<noteq> VK_NULL_HANDLE
                       then (imageViews (vk a))(m_depthView a := None) else imageViews (vk a))
                      (Suc (Suc (nextHandle (vk a))) \<mapsto>
                         \<lparr>ivci_image = nextHandle (vk a), ivci_format = m_depthFormat a,
                          ivci_aspectMask = depth_aspectMask (m_depthFormat a)\<rparr>)"
    by (rule createDepthBuffer_success)
  from assms(1) have pos: "0 < nextHandle (vk a)"
    and di: "dom (images (vk a)) = {m_colorImage a, m_depthImage a} - {0}"
    and dm: "dom (memories (vk a)) = {m_colorMemory a, m_depthMemory a} - {0}"
    and dv: "dom (imageViews (vk a)) = {m_colorView a, m_depthView a} - {0}"
    and lt: "m_colorImage a < nextHandle (vk a)" "m_depthImage a < nextHandle (vk a)"
      "m_colorMemory a < nextHandle (vk a)" "m_depthMemory a < nextHandle (vk a)"
      "m_colorView a < nextHandle (vk a)" "m_depthView a < nextHandle (vk a)"
    and ne: "m_colorImage a = m_depthImage a \<longrightarrow> m_colorImage a = 0"
      "m_colorMemory a = m_depthMemory a \<longrightarrow> m_colorMemory a = 0"
      "m_colorView a = m_depthView a \<longrightarrow> m_colorView a = 0"
    by (simp_all add: targets_wf_def VK_NULL_HANDLE_def)
  have "dom (images (vk a')) = {m_colorImage a', m_depthImage a'} - {VK_NULL_HANDLE}"
    unfolding i h VK_NULL_HANDLE_def by (rule dom_replace_second [OF di lt(1,2) ne(1)])
  moreover have "dom (memories (vk a')) = {m_colorMemory a', m_depthMemory a'} - {VK_NULL_HANDLE}"
    unfolding m h VK_NULL_HANDLE_def
    by (rule dom_replace_second [OF dm]) (use lt ne in simp_all)
  moreover have "dom (imageViews (vk a')) = {m_colorView a', m_depthView a'} - {VK_NULL_HANDLE}"
    unfolding v h VK_NULL_HANDLE_def
    by (rule dom_replace_second [OF dv]) (use lt ne in simp_all)
  moreover have "m_colorImage a' \<noteq> m_depthImage a'" "m_colorMemory a' \<noteq> m_depthMemory a'"
      "m_colorView a' \<noteq> m_depthView a'"
    using lt by (simp_all add: h)
  ultimately show "targets_wf a'"
    using pos lt by (simp add: targets_wf_def h)
  show "depth_target_alive a'"
    using pos by (simp add: depth_target_alive_def h i m v VK_NULL_HANDLE_def)
qed



lemma createColorBuffer_total:
  assumes "getMemoryType a (imageMemoryTypeBits (driver (vk a)) (color_image_info a))
       VK_MEMORY_PROPERTY_DEVICE_LOCAL_BIT = Inr idx"
  shows "\<exists>a'. createColorBuffer a = Inr a'"
  using assms by (simp add: createColorBuffer_unfold Let_def)

lemma createColorBuffer_fails:
  assumes "getMemoryType a (imageMemoryTypeBits (driver (vk a)) (color_image_info a))
       VK_MEMORY_PROPERTY_DEVICE_LOCAL_BIT = Inl e"
  shows "createColorBuffer a = Inl e"
  using assms by (simp add: createColorBuffer_unfold Let_def)

lemma createColorBuffer_same_request:
  assumes "createColorBuffer a = Inr a'"
  shows "getMemoryType a' (imageMemoryTypeBits (driver (vk a')) (color_image_info a'))
       VK_MEMORY_PROPERTY_DEVICE_LOCAL_BIT
     = getMemoryType a (imageMemoryTypeBits (driver (vk a)) (color_image_info a))
       VK_MEMORY_PROPERTY_DEVICE_LOCAL_BIT"
proof -
  from assms obtain idx where
    "m_size a' = m_size a" "m_colorFormat a' = m_colorFormat a" "m_depthFormat a' = m_depthFormat a"
    "driver (vk a') = driver (vk a)"
    by (rule createColorBuffer_success)
  then show ?thesis
    by (simp add: getMemoryType_def color_image_info_def)
qed

lemma times_createColorBuffer:
  assumes "targets_wf a"
    and "getMemoryType a (imageMemoryTypeBits (driver (vk a)) (color_image_info a))
       VK_MEMORY_PROPERTY_DEVICE_LOCAL_BIT = Inr idx"
  shows "\<exists>a'. times N createColorBuffer a = Inr a' \<and> targets_wf a'
     \<and> (0 < N \<longrightarrow> color_target_alive a')
     \<and> m_depthImage a' = m_depthImage a \<and> m_depthMemory a' = m_depthMemory a
     \<and> m_depthView a' = m_depthView a"
  using assms
proof (induction N arbitrary: a)
  case 0
  then show ?case by simp
next
  case (Suc N)
  from createColorBuffer_total [OF Suc.prems(2)] obtain a1 where a1: "createColorBuffer a = Inr a1"
    by blast
  note wf1 = createColorBuffer_wf [OF Suc.prems(1) a1]
  from a1 obtain i where same: "m_depthImage a1 = m_depthImage a" "m_depthMemory a1 = m_depthMemory a"
      "m_depthView a1 = m_depthView a"
    by (rule createColorBuffer_success)
  from createColorBuffer_same_request [OF a1] Suc.prems(2)
  have "getMemoryType a1 (imageMemoryTypeBits (driver (vk a1)) (color_image_info a1))
       VK_MEMORY_PROPERTY_DEVICE_LOCAL_BIT = Inr idx"
    by simp
  from Suc.IH [OF wf1(1) this] obtain a' where a': "times N createColorBuffer a1 = Inr a'"
      "targets_wf a'" "0 < N \<longrightarrow> color_target_alive a'"
      "m_depthImage a' = m_depthImage a1" "m_depthMemory a' = m_depthMemory a1"
      "m_depthView a' = m_depthView a1"
    by blast
  have "color_target_alive a'"
  proof (cases N)
    case 0
    with a'(1) wf1(2) show ?thesis by simp
  next
    case (Suc k)
    with a'(3) show ?thesis by simp
  qed
  with a1 a' same show ?case
    by simp
qed

lemma createDepthBuffer_total:
  assumes "getMemoryType a (imageMemoryTypeBits (driver (vk a)) (depth_image_info a))
       VK_MEMORY_PROPERTY_DEVICE_LOCAL_BIT = Inr idx"
  shows "\<exists>a'. createDepthBuffer a = Inr a'"
  using assms by (simp add: createDepthBuffer_unfold Let_def)

lemma createDepthBuffer_fails:
  assumes "getMemoryType a (imageMemoryTypeBits (driver (vk a)) (depth_image_info a))
       VK_MEMORY_PROPERTY_DEVICE_LOCAL_BIT = Inl e"
  shows "createDepthBuffer a = Inl e"
  using assms by (simp add: createDepthBuffer_unfold Let_def)

lemma createDepthBuffer_same_request:
  assumes "createDepthBuffer a = Inr a'"
  shows "getMemoryType a' (imageMemoryTypeBits (driver (vk a')) (depth_image_info a'))
       VK_MEMORY_PROPERTY_DEVICE_LOCAL_BIT
     = getMemoryType a (imageMemoryTypeBits (driver (vk a)) (depth_image_info a))
       VK_MEMORY_PROPERTY_DEVICE_LOCAL_BIT"
proof -
  from assms obtain idx where
    "m_size a' = m_size a" "m_colorFormat a' = m_colorFormat a" "m_depthFormat a' = m_depthFormat a"
    "driver (vk a') = driver (vk a)"
    by (rule createDepthBuffer_success)
  then show ?thesis
    by (simp add: getMemoryType_def depth_image_info_def)
qed

lemma times_createDepthBuffer:
  assumes "targets_wf a"
    and "getMemoryType a (imageMemoryTypeBits (driver (vk a)) (depth_image_info a))
       VK_MEMORY_PROPERTY_DEVICE_LOCAL_BIT = Inr idx"
  shows "\<exists>a'. times N createDepthBuffer a = Inr a' \<and> targets_wf a'
     \<and> (0 < N \<longrightarrow> depth_target_alive a')
     \<and> m_colorImage a' = m_colorImage a \<and> m_colorMemory a' = m_colorMemory a
     \<and> m_colorView a' = m_colorView a"
  using assms
proof (induction N arbitrary: a)
  case 0
  then show ?case by simp
next
  case (Suc N)
  from createDepthBuffer_total [OF Suc.prems(2)] obtain a1 where a1: "createDepthBuffer a = Inr a1"
    by blast
  note wf1 = createDepthBuffer_wf [OF Suc.prems(1) a1]
  from a1 obtain i where same: "m_colorImage a1 = m_colorImage a" "m_colorMemory a1 = m_colorMemory a"
      "m_colorView a1 = m_colorView a"
    by (rule createDepthBuffer_success)
  from createDepthBuffer_same_request [OF a1] Suc.prems(2)
  have "getMemoryType a1 (imageMemoryTypeBits (driver (vk a1)) (depth_image_info a1))
       VK_MEMORY_PROPERTY_DEVICE_LOCAL_BIT = Inr idx"
    by simp
  from Suc.IH [OF wf1(1) this] obtain a' where a': "times N createDepthBuffer a1 = Inr a'"
      "targets_wf a'" "0 < N \<longrightarrow> depth_target_alive a'"
      "m_colorImage a' = m_colorImage a1" "m_colorMemory a' = m_colorMemory a1"
      "m_colorView a' = m_colorView a1"
    by blast
  have "depth_target_alive a'"
  proof (cases N)
    case 0
    with a'(1) wf1(2) show ?thesis by simp
  next
    case (Suc k)
    with a'(3) show ?thesis by simp
  qed
  with a1 a' same show ?case
    by simp
qed

lemma times_fails:
  assumes "f s = Inl e" "0 < N"
  shows "times N f s = Inl e"
  using assms by (cases N) simp_all


lemma example_app_fields:
  "driver (vk example_app) = example_driver"
  "nextHandle (vk example_app) = 4"
  "images (vk example_app) = Map.empty"
  "memories (vk example_app) = Map.empty"
  "imageViews (vk example_app) = Map.empty"
  "m_colorImage example_app = 0" "m_colorMemory example_app = 0" "m_colorView example_app = 0"
  "m_depthImage example_app = 0" "m_depthMemory example_app = 0" "m_depthView example_app = 0"
  "m_size example_app = \<lparr>width = 1008, height = 660\<rparr>"
  "m_colorFormat example_app = VK_FORMAT_B8G8R8A8_UNORM"
  "m_depthFormat example_app = VK_FORMAT_D32_SFLOAT"
  by (simp_all add: example_app_def setup_HeadlessAppVK_def vkGetDeviceQueue_eq vkCreateCommandPool_eq
      vkCreatePipelineCache_eq emit_def new_world_def initial_HeadlessAppVK_def VK_NULL_HANDLE_def
      VK_FORMAT_D32_SFLOAT_def VK_FORMAT_UNDEFINED_def)

lemma example_app_wf: "targets_wf example_app"
  by (simp add: targets_wf_def example_app_fields VK_NULL_HANDLE_def)

lemma example_app_memory_type:
  "getMemoryType example_app (imageMemoryTypeBits (driver (vk example_app)) info)
     VK_MEMORY_PROPERTY_DEVICE_LOCAL_BIT = Inr 1"
  unfolding getMemoryType_def example_app_fields
  by (simp add: getMemoryType_from.simps example_driver_def VK_MAX_MEMORY_TYPES_def
      VK_MEMORY_PROPERTY_DEVICE_LOCAL_BIT_def)

text \<open>
  Claim C3. On well-formed render targets and for every \<open>N\<close> of at least one: when
  \<open>getMemoryType\<close> returns for the image, \<open>N\<close> calls of \<open>createColorBuffer\<close> in
  a row all return, the targets are well formed again, the colour target is alive, and
  the live images, memory objects and views are exactly the new colour triple and the
  untouched depth triple; when \<open>getMemoryType\<close> ends the run so does the first call. One
  call logs the release of the view, then of the image, then of the memory, each only
  for a non-null handle, before the four calls that create the new triple. The same
  holds for \<open>createDepthBuffer\<close> with the two targets exchanged.
\<close>

theorem recreation_keeps_one_triple:
  assumes "targets_wf a" and "0 < N"
  shows "(\<forall>idx. getMemoryType a (imageMemoryTypeBits (driver (vk a)) (color_image_info a))
                  VK_MEMORY_PROPERTY_DEVICE_LOCAL_BIT = Inr idx \<longrightarrow>
            (\<exists>a'. times N createColorBuffer a = Inr a' \<and> targets_wf a' \<and> color_target_alive a'
                \<and> dom (images (vk a')) = {m_colorImage a', m_depthImage a} - {VK_NULL_HANDLE}
                \<and> dom (memories (vk a')) = {m_colorMemory a', m_depthMemory a} - {VK_NULL_HANDLE}
                \<and> dom (imageViews (vk a')) = {m_colorView a', m_depthView a} - {VK_NULL_HANDLE}))
     \<and> (\<forall>e. getMemoryType a (imageMemoryTypeBits (driver (vk a)) (color_image_info a))
                  VK_MEMORY_PROPERTY_DEVICE_LOCAL_BIT = Inl e \<longrightarrow>
            times N createColorBuffer a = Inl e)
     \<and> (\<forall>a1. createColorBuffer a = Inr a1 \<longrightarrow>
            vk_calls (vk a1) = vk_calls (vk a)
              @ release_calls (m_colorView a) (m_colorImage a) (m_colorMemory a)
              @ [CreateImage (m_colorImage a1), AllocateMemory (m_colorMemory a1),
                 BindImageMemory (m_colorImage a1) (m_colorMemory a1), CreateImageView (m_colorView a1)])
     \<and> (\<forall>idx. getMemoryType a (imageMemoryTypeBits (driver (vk a)) (depth_image_info a))
                  VK_MEMORY_PROPERTY_DEVICE_LOCAL_BIT = Inr idx \<longrightarrow>
            (\<exists>a'. times N createDepthBuffer a = Inr a' \<and> targets_wf a' \<and> depth_target_alive a'
                \<and> dom (images (vk a')) = {m_colorImage a, m_depthImage a'} - {VK_NULL_HANDLE}
                \<and> dom (memories (vk a')) = {m_colorMemory a, m_depthMemory a'} - {VK_NULL_HANDLE}
                \<and> dom (imageViews (vk a')) = {m_colorView a, m_depthView a'} - {VK_NULL_HANDLE}))
     \<and> (\<forall>e. getMemoryType a (imageMemoryTypeBits (driver (vk a)) (depth_image_info a))
                  VK_MEMORY_PROPERTY_DEVICE_LOCAL_BIT = Inl e \<longrightarrow>
            times N createDepthBuffer a = Inl e)
     \<and> (\<forall>a1. createDepthBuffer a = Inr a1 \<longrightarrow>
            vk_calls (vk a1) = vk_calls (vk a)
              @ release_calls (m_depthView a) (m_depthImage a) (m_depthMemory a)
              @ [CreateImage (m_depthImage a1), AllocateMemory (m_depthMemory a1),
                 BindImageMemory (m_depthImage a1) (m_depthMemory a1), CreateImageView (m_depthView a1)])"
proof (intro conjI allI impI)
  fix idx
  assume "getMemoryType a (imageMemoryTypeBits (driver (vk a)) (color_image_info a))
                  VK_MEMORY_PROPERTY_DEVICE_LOCAL_BIT = Inr idx"
  from times_createColorBuffer [OF assms(1) this, of N] assms(2)
  obtain a' where a': "times N createColorBuffer a = Inr a'" "targets_wf a'" "color_target_alive a'"
    "m_depthImage a' = m_depthImage a" "m_depthMemory a' = m_depthMemory a" "m_depthView a' = m_depthView a"
    by auto
  from a'(2) have "dom (images (vk a')) = {m_colorImage a', m_depthImage a'} - {VK_NULL_HANDLE}"
    "dom (memories (vk a')) = {m_colorMemory a', m_depthMemory a'} - {VK_NULL_HANDLE}"
    "dom (imageViews (vk a')) = {m_colorView a', m_depthView a'} - {VK_NULL_HANDLE}"
    by (simp_all add: targets_wf_def)
  with a' show "\<exists>a'. times N createColorBuffer a = Inr a' \<and> targets_wf a' \<and> color_target_alive a'
                \<and> dom (images (vk a')) = {m_colorImage a', m_depthImage a} - {VK_NULL_HANDLE}
                \<and> dom (memories (vk a')) = {m_colorMemory a', m_depthMemory a} - {VK_NULL_HANDLE}
                \<and> dom (imageViews (vk a')) = {m_colorView a', m_depthView a} - {VK_NULL_HANDLE}"
    by simp
next
  fix idx
  assume "getMemoryType a (imageMemoryTypeBits (driver (vk a)) (depth_image_info a))
                  VK_MEMORY_PROPERTY_DEVICE_LOCAL_BIT = Inr idx"
  from times_createDepthBuffer [OF assms(1) this, of N] assms(2)
  obtain a' where a': "times N createDepthBuffer a = Inr a'" "targets_wf a'" "depth_target_alive a'"
    "m_colorImage a' = m_colorImage a" "m_colorMemory a' = m_colorMemory a" "m_colorView a' = m_colorView a"
    by auto
  from a'(2) have "dom (images (vk a')) = {m_colorImage a', m_depthImage a'} - {VK_NULL_HANDLE}"
    "dom (memories (vk a')) = {m_colorMemory a', m_depthMemory a'} - {VK_NULL_HANDLE}"
    "dom (imageViews (vk a')) = {m_colorView a', m_depthView a'} - {VK_NULL_HANDLE}"
    by (simp_all add: targets_wf_def)
  with a' show "\<exists>a'. times N createDepthBuffer a = Inr a' \<and> targets_wf a' \<and> depth_target_alive a'
                \<and> dom (images (vk a')) = {m_colorImage a, m_depthImage a'} - {VK_NULL_HANDLE}
                \<and> dom (memories (vk a')) = {m_colorMemory a, m_depthMemory a'} - {VK_NULL_HANDLE}
                \<and> dom (imageViews (vk a')) = {m_colorView a, m_depthView a'} - {VK_NULL_HANDLE}"
    by simp
next
  fix e
  assume "getMemoryType a (imageMemoryTypeBits (driver (vk a)) (color_image_info a))
                  VK_MEMORY_PROPERTY_DEVICE_LOCAL_BIT = Inl e"
  from times_fails [where f = createColorBuffer and s = a, OF createColorBuffer_fails [OF this] assms(2)]
  show "times N createColorBuffer a = Inl e" .
next
  fix e
  assume "getMemoryType a (imageMemoryTypeBits (driver (vk a)) (depth_image_info a))
                  VK_MEMORY_PROPERTY_DEVICE_LOCAL_BIT = Inl e"
  from times_fails [where f = createDepthBuffer and s = a, OF createDepthBuffer_fails [OF this] assms(2)]
  show "times N createDepthBuffer a = Inl e" .
next
  fix a1
  assume "createColorBuffer a = Inr a1"
  then obtain idx where "m_colorImage a1 = nextHandle (vk a)" "m_colorMemory a1 = Suc (nextHandle (vk a))"
    "m_colorView a1 = Suc (Suc (nextHandle (vk a)))"
    "vk_calls (vk a1) = vk_calls (vk a) @ release_calls (m_colorView a) (m_colorImage a) (m_colorMemory a)
        @ [CreateImage (nextHandle (vk a)), AllocateMemory (Suc (nextHandle (vk a))),
           BindImageMemory (nextHandle (vk a)) (Suc (nextHandle (vk a))),
           CreateImageView (Suc (Suc (nextHandle (vk a))))]"
    by (rule createColorBuffer_success)
  then show "vk_calls (vk a1) = vk_calls (vk a)
              @ release_calls (m_colorView a) (m_colorImage a) (m_colorMemory a)
              @ [CreateImage (m_colorImage a1), AllocateMemory (m_colorMemory a1),
                 BindImageMemory (m_colorImage a1) (m_colorMemory a1), CreateImageView (m_colorView a1)]"
    by simp
next
  fix a1
  assume "createDepthBuffer a = Inr a1"
  then obtain idx where "m_depthImage a1 = nextHandle (vk a)" "m_depthMemory a1 = Suc (nextHandle (vk a))"
    "m_depthView a1 = Suc (Suc (nextHandle (vk a)))"
    "vk_calls (vk a1) = vk_calls (vk a) @ release_calls (m_depthView a) (m_depthImage a) (m_depthMemory a)
        @ [CreateImage (nextHandle (vk a)), AllocateMemory (Suc (nextHandle (vk a))),
           BindImageMemory (nextHandle (vk a)) (Suc (nextHandle (vk a))),
           CreateImageView (Suc (Suc (nextHandle (vk a))))]"
    by (rule createDepthBuffer_success)
  then show "vk_calls (vk a1) = vk_calls (vk a)
              @ release_calls (m_depthView a) (m_depthImage a) (m_depthMemory a)
              @ [CreateImage (m_depthImage a1), AllocateMemory (m_depthMemory a1),
                 BindImageMemory (m_depthImage a1) (m_depthMemory a1), CreateImageView (m_depthView a1)]"
    by simp
qed

theorem recreation_keeps_one_triple_witness:
  "(\<exists>a'. times 3 createColorBuffer example_app = Inr a' \<and> color_target_alive a'
      \<and> card (dom (images (vk a'))) = 1 \<and> card (dom (memories (vk a'))) = 1
      \<and> card (dom (imageViews (vk a'))) = 1)
   \<and> (\<exists>a1 a2. createColorBuffer example_app = Inr a1 \<and> createColorBuffer a1 = Inr a2
      \<and> vk_calls (vk a2) = vk_calls (vk a1) @
            [DestroyImageView 6, DestroyImage 4, FreeMemory 5,
             CreateImage 7, AllocateMemory 8, BindImageMemory 7 8, CreateImageView 9])"
proof -
  have three: "0 < (3::nat)" and one: "0 < (1::nat)"
    by simp_all
  from recreation_keeps_one_triple [OF example_app_wf three]
  have "\<forall>idx. getMemoryType example_app
            (imageMemoryTypeBits (driver (vk example_app)) (color_image_info example_app))
            VK_MEMORY_PROPERTY_DEVICE_LOCAL_BIT = Inr idx \<longrightarrow>
          (\<exists>a'. times 3 createColorBuffer example_app = Inr a' \<and> targets_wf a' \<and> color_target_alive a'
              \<and> dom (images (vk a')) = {m_colorImage a', m_depthImage example_app} - {VK_NULL_HANDLE}
              \<and> dom (memories (vk a')) = {m_colorMemory a', m_depthMemory example_app} - {VK_NULL_HANDLE}
              \<and> dom (imageViews (vk a')) = {m_colorView a', m_depthView example_app} - {VK_NULL_HANDLE})"
    by (rule conjunct1)
  from this [rule_format, OF example_app_memory_type]
  obtain a' where a': "times 3 createColorBuffer example_app = Inr a'" "color_target_alive a'"
    "dom (images (vk a')) = {m_colorImage a', m_depthImage example_app} - {VK_NULL_HANDLE}"
    "dom (memories (vk a')) = {m_colorMemory a', m_depthMemory example_app} - {VK_NULL_HANDLE}"
    "dom (imageViews (vk a')) = {m_colorView a', m_depthView example_app} - {VK_NULL_HANDLE}"
    by (elim exE conjE)
  from a'(2) have nz: "m_colorImage a' \<noteq> 0" "m_colorMemory a' \<noteq> 0" "m_colorView a' \<noteq> 0"
    by (simp_all add: color_target_alive_def VK_NULL_HANDLE_def)
  have single: "{h, 0} - {0} = {h}" if "h \<noteq> 0" for h :: nat
    using that by auto
  have "dom (images (vk a')) = {m_colorImage a'}" "dom (memories (vk a')) = {m_colorMemory a'}"
    "dom (imageViews (vk a')) = {m_colorView a'}"
    unfolding a'(3-5) example_app_fields VK_NULL_HANDLE_def
    by (rule single, rule nz)+
  then have "card (dom (images (vk a'))) = 1" "card (dom (memories (vk a'))) = 1"
    "card (dom (imageViews (vk a'))) = 1"
    by simp_all
  with a'(1,2) have first: "\<exists>a'. times 3 createColorBuffer example_app = Inr a' \<and> color_target_alive a'
      \<and> card (dom (images (vk a'))) = 1 \<and> card (dom (memories (vk a'))) = 1
      \<and> card (dom (imageViews (vk a'))) = 1"
    by (intro exI [of _ a'] conjI)
  from createColorBuffer_total [OF example_app_memory_type]
  obtain a1 where a1: "createColorBuffer example_app = Inr a1"
    by blast
  then obtain i1 where "m_colorImage a1 = nextHandle (vk example_app)"
      "m_colorMemory a1 = Suc (nextHandle (vk example_app))"
      "m_colorView a1 = Suc (Suc (nextHandle (vk example_app)))"
      "nextHandle (vk a1) = Suc (Suc (Suc (nextHandle (vk example_app))))"
    by (rule createColorBuffer_success)
  then have h1: "m_colorImage a1 = 4" "m_colorMemory a1 = 5" "m_colorView a1 = 6"
      "nextHandle (vk a1) = 7"
    by (simp_all add: example_app_fields)
  note wf1 = createColorBuffer_wf(1) [OF example_app_wf a1]
  from createColorBuffer_same_request [OF a1] example_app_memory_type
  have "getMemoryType a1 (imageMemoryTypeBits (driver (vk a1)) (color_image_info a1))
       VK_MEMORY_PROPERTY_DEVICE_LOCAL_BIT = Inr 1"
    by simp
  from createColorBuffer_total [OF this]
  obtain a2 where a2: "createColorBuffer a1 = Inr a2"
    by blast
  then obtain i2 where "m_colorImage a2 = nextHandle (vk a1)"
      "m_colorMemory a2 = Suc (nextHandle (vk a1))"
      "m_colorView a2 = Suc (Suc (nextHandle (vk a1)))"
    by (rule createColorBuffer_success)
  then have h2: "m_colorImage a2 = 7" "m_colorMemory a2 = 8" "m_colorView a2 = 9"
    by (simp_all add: h1)
  note calls_of_one_call =
    recreation_keeps_one_triple [OF wf1 one, THEN conjunct2, THEN conjunct2, THEN conjunct1, rule_format]
  from calls_of_one_call [OF a2]
  have "vk_calls (vk a2) = vk_calls (vk a1)
              @ release_calls (m_colorView a1) (m_colorImage a1) (m_colorMemory a1)
              @ [CreateImage (m_colorImage a2), AllocateMemory (m_colorMemory a2),
                 BindImageMemory (m_colorImage a2) (m_colorMemory a2), CreateImageView (m_colorView a2)]" .
  then have "vk_calls (vk a2) = vk_calls (vk a1) @
            [DestroyImageView 6, DestroyImage 4, FreeMemory 5,
             CreateImage 7, AllocateMemory 8, BindImageMemory 7 8, CreateImageView 9]"
    by (simp add: h1 h2 release_calls_def VK_NULL_HANDLE_def)
  with a1 a2 have "\<exists>a1 a2. createColorBuffer example_app = Inr a1 \<and> createColorBuffer a1 = Inr a2
      \<and> vk_calls (vk a2) = vk_calls (vk a1) @
            [DestroyImageView 6, DestroyImage 4, FreeMemory 5,
             CreateImage 7, AllocateMemory 8, BindImageMemory 7 8, CreateImageView 9]"
    by blast
  with first show ?thesis
    by (rule conjI)
qed

text \<open>
  Claim C9. The view that \<open>createDepthBuffer\<close> creates always has the depth aspect, and
  it has the stencil aspect exactly when the depth format is, as a number, at least
  \<open>VK_FORMAT_D16_UNORM_S8_UINT\<close>.
\<close>

theorem depth_view_aspect:
  assumes "createDepthBuffer a = Inr a'"
  shows "\<exists>v. imageViews (vk a') (m_depthView a') = Some v
     \<and> ivci_image v = m_depthImage a'
     \<and> (ivci_aspectMask v AND VK_IMAGE_ASPECT_DEPTH_BIT) = VK_IMAGE_ASPECT_DEPTH_BIT
     \<and> ((ivci_aspectMask v AND VK_IMAGE_ASPECT_STENCIL_BIT) = VK_IMAGE_ASPECT_STENCIL_BIT
          \<longleftrightarrow> VK_FORMAT_D16_UNORM_S8_UINT \<le> m_depthFormat a)"
proof -
  from assms obtain idx where "m_depthImage a' = nextHandle (vk a)"
    "m_depthView a' = Suc (Suc (nextHandle (vk a)))"
    "imageViews (vk a') = (if m_depthView a \<noteq> VK_NULL_HANDLE
                       then (imageViews (vk a))(m_depthView a := None) else imageViews (vk a))
                      (Suc (Suc (nextHandle (vk a))) \<mapsto>
                         \<lparr>ivci_image = nextHandle (vk a), ivci_format = m_depthFormat a,
                          ivci_aspectMask = depth_aspectMask (m_depthFormat a)\<rparr>)"
    by (rule createDepthBuffer_success)
  then show ?thesis
    by (simp add: depth_aspectMask_def VK_IMAGE_ASPECT_DEPTH_BIT_def VK_IMAGE_ASPECT_STENCIL_BIT_def)
qed

theorem depth_view_aspect_witness:
  "(\<exists>a' v. createDepthBuffer example_app = Inr a'
      \<and> imageViews (vk a') (m_depthView a') = Some v
      \<and> (ivci_aspectMask v AND VK_IMAGE_ASPECT_DEPTH_BIT) = VK_IMAGE_ASPECT_DEPTH_BIT
      \<and> (ivci_aspectMask v AND VK_IMAGE_ASPECT_STENCIL_BIT) \<noteq> VK_IMAGE_ASPECT_STENCIL_BIT)
   \<and> (\<exists>a' v. createDepthBuffer (example_app\<lparr>m_depthFormat := VK_FORMAT_D24_UNORM_S8_UINT\<rparr>) = Inr a'
      \<and> imageViews (vk a') (m_depthView a') = Some v
      \<and> (ivci_aspectMask v AND VK_IMAGE_ASPECT_DEPTH_BIT) = VK_IMAGE_ASPECT_DEPTH_BIT
      \<and> (ivci_aspectMask v AND VK_IMAGE_ASPECT_STENCIL_BIT) = VK_IMAGE_ASPECT_STENCIL_BIT)"
proof -
  let ?b = "example_app\<lparr>m_depthFormat := VK_FORMAT_D24_UNORM_S8_UINT\<rparr>"
  from createDepthBuffer_total [OF example_app_memory_type]
  obtain a' where a': "createDepthBuffer example_app = Inr a'"
    by blast
  have "\<not> VK_FORMAT_D16_UNORM_S8_UINT \<le> m_depthFormat example_app"
    by (simp add: example_app_fields VK_FORMAT_D16_UNORM_S8_UINT_def VK_FORMAT_D32_SFLOAT_def)
  with depth_view_aspect [OF a'] a'
  have plain: "\<exists>a' v. createDepthBuffer example_app = Inr a'
      \<and> imageViews (vk a') (m_depthView a') = Some v
      \<and> (ivci_aspectMask v AND VK_IMAGE_ASPECT_DEPTH_BIT) = VK_IMAGE_ASPECT_DEPTH_BIT
      \<and> (ivci_aspectMask v AND VK_IMAGE_ASPECT_STENCIL_BIT) \<noteq> VK_IMAGE_ASPECT_STENCIL_BIT"
    by blast
  have "getMemoryType ?b (imageMemoryTypeBits (driver (vk ?b)) (depth_image_info ?b))
     VK_MEMORY_PROPERTY_DEVICE_LOCAL_BIT = Inr 1"
    using example_app_memory_type [of "depth_image_info ?b"] by (simp add: getMemoryType_def)
  from createDepthBuffer_total [OF this]
  obtain b' where b': "createDepthBuffer ?b = Inr b'"
    by blast
  have "VK_FORMAT_D16_UNORM_S8_UINT \<le> m_depthFormat ?b"
    by (simp add: VK_FORMAT_D16_UNORM_S8_UINT_def VK_FORMAT_D24_UNORM_S8_UINT_def)
  with depth_view_aspect [OF b'] b'
  have "\<exists>a' v. createDepthBuffer ?b = Inr a'
      \<and> imageViews (vk a') (m_depthView a') = Some v
      \<and> (ivci_aspectMask v AND VK_IMAGE_ASPECT_DEPTH_BIT) = VK_IMAGE_ASPECT_DEPTH_BIT
      \<and> (ivci_aspectMask v AND VK_IMAGE_ASPECT_STENCIL_BIT) = VK_IMAGE_ASPECT_STENCIL_BIT"
    by blast
  with plain show ?thesis
    by (rule conjI)
qed

subsection \<open>Submission\<close>

lemma vkCreateFence_eq:
  "vkCreateFence w =
     (nextHandle w, w\<lparr>fences := insert (nextHandle w) (fences w), nextHandle := Suc (nextHandle w),
                       vk_calls := vk_calls w @ [CreateFence (nextHandle w)]\<rparr>)"
  by (simp add: vkCreateFence_def new_handle_def emit_def)

lemma vkAllocateCommandBuffers_eq:
  "vkAllocateCommandBuffers w =
     (nextHandle w, w\<lparr>commandBuffers := insert (nextHandle w) (commandBuffers w),
                       nextHandle := Suc (nextHandle w),
                       vk_calls := vk_calls w @ [AllocateCommandBuffers (nextHandle w)]\<rparr>)"
  by (simp add: vkAllocateCommandBuffers_def new_handle_def emit_def)

lemma submitWork_world:
  "vk (submitWork cmdBuffer a) =
     (vk a)\<lparr>fences := fences (vk a) - {nextHandle (vk a)},
             in_flight := filter (\<lambda>(c, f). f \<noteq> nextHandle (vk a)) (in_flight (vk a)),
             nextHandle := Suc (nextHandle (vk a)),
             vk_calls := vk_calls (vk a) @
               [CreateFence (nextHandle (vk a)), QueueSubmit [cmdBuffer] (nextHandle (vk a)),
                WaitForFences (nextHandle (vk a)) UINT64_MAX, DestroyFence (nextHandle (vk a))]\<rparr>"
  by (simp add: submitWork_def vkCreateFence_eq vkQueueSubmit_def vkWaitForFences_def
      vkDestroyFence_def emit_def Let_def)

text \<open>
  Claim C8. \<open>submitWork\<close> logs exactly four calls: a fence is created, the one command
  buffer is submitted to the queue with that fence, the fence is waited for without a
  limit, and the fence is destroyed. Afterwards the fence is gone, nothing submitted
  with it is in flight, and nothing that was not in flight before is.
\<close>

theorem submitWork_synchronous:
  "vk_calls (vk (submitWork cmdBuffer a)) =
     vk_calls (vk a) @
       [CreateFence (nextHandle (vk a)), QueueSubmit [cmdBuffer] (nextHandle (vk a)),
        WaitForFences (nextHandle (vk a)) UINT64_MAX, DestroyFence (nextHandle (vk a))]
   \<and> nextHandle (vk a) \<notin> fences (vk (submitWork cmdBuffer a))
   \<and> fences (vk (submitWork cmdBuffer a)) = fences (vk a) - {nextHandle (vk a)}
   \<and> (\<forall>c. (c, nextHandle (vk a)) \<notin> set (in_flight (vk (submitWork cmdBuffer a))))
   \<and> set (in_flight (vk (submitWork cmdBuffer a))) \<subseteq> set (in_flight (vk a))"
  by (auto simp: submitWork_world)

theorem submitWork_synchronous_witness:
  "vk_calls (vk (submitWork 7 example_app)) =
     vk_calls (vk example_app) @ [CreateFence 4, QueueSubmit [7] 4, WaitForFences 4 UINT64_MAX, DestroyFence 4]
   \<and> in_flight (vk (submitWork 7 example_app)) = []
   \<and> fences (vk (submitWork 7 example_app)) = {}"
proof -
  have f: "nextHandle (vk example_app) = 4" "in_flight (vk example_app) = []" "fences (vk example_app) = {}"
    by (simp_all add: example_app_def setup_HeadlessAppVK_def vkGetDeviceQueue_eq vkCreateCommandPool_eq
      vkCreatePipelineCache_eq emit_def new_world_def initial_HeadlessAppVK_def
      VK_FORMAT_D32_SFLOAT_def VK_FORMAT_UNDEFINED_def)
  from submitWork_synchronous [of 7 example_app] show ?thesis
    by (simp add: f)
qed

lemma createTempCmdBuffer_eq:
  "createTempCmdBuffer a =
     (nextHandle (vk a),
      a\<lparr>vk := (vk a)\<lparr>commandBuffers := insert (nextHandle (vk a)) (commandBuffers (vk a)),
                       nextHandle := Suc (nextHandle (vk a)),
                       vk_calls := vk_calls (vk a) @
                         [AllocateCommandBuffers (nextHandle (vk a)), BeginCommandBuffer (nextHandle (vk a))]\<rparr>\<rparr>)"
  by (simp add: createTempCmdBuffer_def vkAllocateCommandBuffers_eq vkBeginCommandBuffer_def emit_def)

lemma submitTempCmdBuffer_world:
  "vk (submitTempCmdBuffer c a) =
     (vk a)\<lparr>commandBuffers := commandBuffers (vk a) - {c}, in_flight := [],
             vk_calls := vk_calls (vk a) @
               [EndCommandBuffer c, QueueSubmit [c] VK_NULL_HANDLE, QueueWaitIdle, FreeCommandBuffers c]\<rparr>"
  by (simp add: submitTempCmdBuffer_def vkEndCommandBuffer_def vkQueueSubmit_def vkQueueWaitIdle_def
      vkFreeCommandBuffers_def emit_def Let_def)

text \<open>
  Claim C4, as the code has it. \<open>createTempCmdBuffer\<close> allocates a command buffer and
  begins it; \<open>submitTempCmdBuffer\<close> ends it, submits it with a null fence, waits for the
  queue to be idle and frees it. A one-shot operation through the pair logs these calls
  around those the caller records, leaves nothing in flight, and creates no fence.
\<close>

theorem transient_command_buffer_sequence:
  "fst (createTempCmdBuffer a) = nextHandle (vk a)
   \<and> vk_calls (vk (snd (createTempCmdBuffer a))) =
       vk_calls (vk a) @ [AllocateCommandBuffers (nextHandle (vk a)), BeginCommandBuffer (nextHandle (vk a))]
   \<and> vk_calls (vk (submitTempCmdBuffer c a)) =
       vk_calls (vk a) @ [EndCommandBuffer c, QueueSubmit [c] VK_NULL_HANDLE, QueueWaitIdle, FreeCommandBuffers c]
   \<and> vk_calls (vk (tempCmdBufferOperation recorded a)) =
       vk_calls (vk a) @ [AllocateCommandBuffers (nextHandle (vk a)), BeginCommandBuffer (nextHandle (vk a))]
         @ recorded (nextHandle (vk a))
         @ [EndCommandBuffer (nextHandle (vk a)), QueueSubmit [nextHandle (vk a)] VK_NULL_HANDLE,
            QueueWaitIdle, FreeCommandBuffers (nextHandle (vk a))]
   \<and> in_flight (vk (tempCmdBufferOperation recorded a)) = []
   \<and> fences (vk (tempCmdBufferOperation recorded a)) = fences (vk a)
   \<and> commandBuffers (vk (tempCmdBufferOperation recorded a)) = commandBuffers (vk a) - {nextHandle (vk a)}"
  by (simp add: tempCmdBufferOperation_def createTempCmdBuffer_eq submitTempCmdBuffer_world emit_all_def)

theorem transient_command_buffer_sequence_witness:
  "vk_calls (vk (tempCmdBufferOperation (\<lambda>c. [CmdCopyImage c 5 6]) example_app)) =
     vk_calls (vk example_app) @
       [AllocateCommandBuffers 4, BeginCommandBuffer 4, CmdCopyImage 4 5 6, EndCommandBuffer 4,
        QueueSubmit [4] VK_NULL_HANDLE, QueueWaitIdle, FreeCommandBuffers 4]
   \<and> in_flight (vk (tempCmdBufferOperation (\<lambda>c. [CmdCopyImage c 5 6]) example_app)) = []"
  using transient_command_buffer_sequence [of example_app _ "\<lambda>c. [CmdCopyImage c 5 6]"]
  by (simp add: example_app_fields(2))

text \<open>
  The specification asks for a fence of its own for the submission. The pair creates,
  waits for and destroys none.
\<close>

theorem transient_command_buffer_counterexample:
  "vk_calls (vk (tempCmdBufferOperation (\<lambda>c. []) (initial_HeadlessAppVK example_driver))) =
     [AllocateCommandBuffers 1, BeginCommandBuffer 1, EndCommandBuffer 1,
      QueueSubmit [1] VK_NULL_HANDLE, QueueWaitIdle, FreeCommandBuffers 1]
   \<and> vk_calls (vk (tempCmdBufferOperation (\<lambda>c. []) (initial_HeadlessAppVK example_driver)))
       \<noteq> spec_transient_calls 1 2 []
   \<and> filter is_fence_call (vk_calls (vk (tempCmdBufferOperation (\<lambda>c. []) (initial_HeadlessAppVK example_driver)))) = []
   \<and> filter is_fence_call (spec_transient_calls 1 2 []) = [CreateFence 2, WaitForFences 2 UINT64_MAX, DestroyFence 2]"
  by (simp add: tempCmdBufferOperation_def createTempCmdBuffer_eq submitTempCmdBuffer_world emit_all_def
      initial_HeadlessAppVK_def new_world_def spec_transient_calls_def)

subsection \<open>The image file\<close>

lemma ppm_row_Suc: "ppm_row mem start (Suc n) = pixel_at mem start @ ppm_row mem (start + 4) n"
proof -
  have "[0..<Suc n] = 0 # map Suc [0..<n]"
    by (simp add: upt_conv_Cons map_Suc_upt del: upt_Suc)
  then show ?thesis
    by (simp add: ppm_row_def comp_def add.assoc del: upt_Suc)
qed

lemma ppm_data_Suc:
  "ppm_data mem off pitch w (Suc n) = ppm_row mem off w @ ppm_data mem (off + pitch) pitch w n"
proof -
  have "[0..<Suc n] = 0 # map Suc [0..<n]"
    by (simp add: upt_conv_Cons map_Suc_upt del: upt_Suc)
  then show ?thesis
    by (simp add: ppm_data_def comp_def add.assoc add.left_commute del: upt_Suc)
qed

lemma length_ppm_row: "length (ppm_row mem start w) = 3 * w"
  by (induction w arbitrary: start) (simp_all add: ppm_row_Suc pixel_at_def, simp add: ppm_row_def)

lemma length_ppm_data: "length (ppm_data mem off pitch w h) = w * h * 3"
  by (induction h arbitrary: off) (simp_all add: ppm_data_Suc length_ppm_row, simp add: ppm_data_def)

lemma nth_ppm_row:
  assumes "x < w" "k < 3"
  shows "ppm_row mem start w ! (3 * x + k) = mem ! (start + 4 * x + (2 - k))"
  using assms
proof (induction w arbitrary: x start)
  case 0
  then show ?case by simp
next
  case (Suc n)
  show ?case
  proof (cases x)
    case 0
    from Suc.prems(2) consider "k = 0" | "k = 1" | "k = 2"
      by fastforce
    then show ?thesis
      by cases (simp_all add: 0 ppm_row_Suc pixel_at_def)
  next
    case (Suc x')
    with Suc.prems have x': "x' < n"
      by simp
    have "ppm_row mem start (Suc n) ! (3 * x + k) = ppm_row mem (start + 4) n ! (3 * x' + k)"
      by (simp add: ppm_row_Suc pixel_at_def nth_append Suc)
    also have "\<dots> = mem ! (start + 4 + 4 * x' + (2 - k))"
      by (rule Suc.IH [OF x' Suc.prems(2)])
    finally show ?thesis
      by (simp add: Suc add.assoc)
  qed
qed

lemma nth_ppm_data:
  assumes "y < h" "x < w" "k < 3"
  shows "ppm_data mem off pitch w h ! (3 * (y * w + x) + k) = mem ! (off + y * pitch + 4 * x + (2 - k))"
  using assms(1)
proof (induction h arbitrary: y off)
  case 0
  then show ?case by simp
next
  case (Suc n)
  have inside: "3 * x + k < 3 * w"
    using assms(2,3) by simp
  show ?case
  proof (cases y)
    case 0
    then show ?thesis
      using inside by (simp add: ppm_data_Suc nth_append length_ppm_row nth_ppm_row [OF assms(2,3)])
  next
    case (Suc y')
    with Suc.prems have y': "y' < n"
      by simp
    have idx: "3 * (y * w + x) + k = 3 * w + (3 * (y' * w + x) + k)"
      by (simp add: Suc algebra_simps)
    have "ppm_data mem off pitch w (Suc n) ! (3 * (y * w + x) + k)
        = ppm_data mem (off + pitch) pitch w n ! (3 * (y' * w + x) + k)"
      unfolding idx by (simp add: ppm_data_Suc nth_append length_ppm_row)
    also have "\<dots> = mem ! (off + pitch + y' * pitch + 4 * x + (2 - k))"
      by (rule Suc.IH [OF y'])
    finally show ?thesis
      by (simp add: Suc algebra_simps)
  qed
qed

lemma write_pixels_swizzled:
  assumes "w < 2 ^ 31" "x \<le> w" "row + 4 * (w - x) \<le> length mem"
  shows "write_pixels mem True w row x out = Inr (out @ ppm_row mem row (w - x))"
  using assms(2,3)
proof (induction "w - x" arbitrary: x row out)
  case 0
  then show ?case
    by (subst write_pixels.simps) (simp add: ppm_row_def)
next
  case (Suc n)
  then have lt: "x < w" and rest: "w - x = Suc (w - Suc x)" and n: "n = w - Suc x"
    by simp_all
  from Suc.prems rest have read: "row + 2 < length mem" and after: "row + 4 + 4 * (w - Suc x) \<le> length mem"
    by simp_all
  from lt assms(1) have small: "\<not> (2::nat) ^ 31 \<le> Suc x"
    by simp
  from lt have le: "Suc x \<le> w"
    by simp
  have "write_pixels mem True w row x out
      = write_pixels mem True w (row + 4) (Suc x) (out @ [mem ! (row + 2)] @ [mem ! (row + 1)] @ [mem ! row])"
    using lt read small by (subst write_pixels.simps) (simp add: Let_def)
  also have "\<dots> = Inr ((out @ [mem ! (row + 2)] @ [mem ! (row + 1)] @ [mem ! row]) @ ppm_row mem (row + 4) (w - Suc x))"
    by (rule Suc.hyps(1) [OF n le after])
  also have "\<dots> = Inr (out @ ppm_row mem row (w - x))"
    by (simp add: rest ppm_row_Suc pixel_at_def)
  finally show ?case .
qed

lemma write_rows_swizzled:
  assumes "unat (width sz) < 2 ^ 31" "unat (height sz) < 2 ^ 31"
    and "y \<le> unat (height sz)"
    and "y < unat (height sz) \<longrightarrow>
           imagedata + (unat (height sz) - Suc y) * pitch + 4 * unat (width sz) \<le> length mem"
  shows "write_rows mem True sz pitch imagedata y out =
     Inr (out @ ppm_data mem imagedata pitch (unat (width sz)) (unat (height sz) - y))"
  using assms(3,4)
proof (induction "unat (height sz) - y" arbitrary: y imagedata out)
  case 0
  then show ?case
    by (subst write_rows.simps) (simp add: ppm_data_def)
next
  case (Suc n)
  let ?w = "unat (width sz)" and ?h = "unat (height sz)"
  from Suc have lt: "y < ?h" and rest: "?h - y = Suc (?h - Suc y)" and n: "n = ?h - Suc y"
    by simp_all
  from Suc.prems(2) lt have room: "imagedata + (?h - Suc y) * pitch + 4 * ?w \<le> length mem"
    by simp
  then have row: "imagedata + 4 * (?w - 0) \<le> length mem"
    by simp
  have later: "Suc y < ?h \<longrightarrow> imagedata + pitch + (?h - Suc (Suc y)) * pitch + 4 * ?w \<le> length mem"
  proof
    assume "Suc y < ?h"
    then have "?h - Suc y = Suc (?h - Suc (Suc y))"
      by simp
    with room show "imagedata + pitch + (?h - Suc (Suc y)) * pitch + 4 * ?w \<le> length mem"
      by simp
  qed
  from lt assms(2) have small: "\<not> (2::nat) ^ 31 \<le> Suc y"
    by simp
  from lt have le: "Suc y \<le> ?h"
    by simp
  have pixels: "write_pixels mem True ?w imagedata 0 out = Inr (out @ ppm_row mem imagedata ?w)"
    using write_pixels_swizzled [OF assms(1) _ row, of out] by simp
  have "write_rows mem True sz pitch imagedata y out
      = write_rows mem True sz pitch (imagedata + pitch) (Suc y) (out @ ppm_row mem imagedata ?w)"
    using lt small by (subst write_rows.simps) (simp add: pixels)
  also have "\<dots> = Inr ((out @ ppm_row mem imagedata ?w) @ ppm_data mem (imagedata + pitch) pitch ?w (?h - Suc y))"
    by (rule Suc.hyps(1) [OF n le later])
  also have "\<dots> = Inr (out @ ppm_data mem imagedata pitch ?w (?h - y))"
    by (simp add: rest ppm_data_Suc)
  finally show ?case .
qed

lemma to_string_255: "to_string 255 = ''255''"
  by (simp add: to_string.simps digit_def)

lemma submitWork_size: "m_size (submitWork c a) = m_size a"
  by (simp add: submitWork_def split: prod.splits)

lemma dumpImage_file:
  assumes "dumpImage a = Inr (a', out)"
  shows "write_ppm (m_size a) (imageSubresourceLayout (driver (vk a)) (dump_image_info a))
           (mappedBytes (driver (vk a)) (Suc (nextHandle (vk a)))) = Inr out"
  using assms
  by (simp add: dumpImage_def Let_def vkCreateImage_eq vkAllocateMemory_eq vkAllocateCommandBuffers_eq
      vkGetImageMemoryRequirements_def vkGetImageSubresourceLayout_def vkMapMemory_def
      vkBindImageMemory_def vkBeginCommandBuffer_def vkEndCommandBuffer_def emit_def
      submitWork_world submitWork_size dump_image_info_def
      split: sum.splits)


lemma dumpImage_returns:
  assumes "getMemoryType a (imageMemoryTypeBits (driver (vk a)) (dump_image_info a))
             (VK_MEMORY_PROPERTY_HOST_VISIBLE_BIT OR VK_MEMORY_PROPERTY_HOST_COHERENT_BIT) = Inr idx"
    and "write_ppm (m_size a) (imageSubresourceLayout (driver (vk a)) (dump_image_info a))
           (mappedBytes (driver (vk a)) (Suc (nextHandle (vk a)))) = Inr out"
  shows "\<exists>a'. dumpImage a = Inr (a', out)"
  using assms
  by (simp add: dumpImage_def Let_def vkCreateImage_eq vkAllocateMemory_eq vkAllocateCommandBuffers_eq
      vkGetImageMemoryRequirements_def vkGetImageSubresourceLayout_def vkMapMemory_def
      vkBindImageMemory_def vkBeginCommandBuffer_def vkEndCommandBuffer_def emit_def
      submitWork_world submitWork_size dump_image_info_def getMemoryType_def)

text \<open>
  Claim C5. For an extent within the range of the signed counters, any row pitch, and
  mapped bytes that reach to the end of the pixels of the last row, the file consists of
  the header \<open>P6\<close>, the width, the height and \<open>255\<close>, each followed by a newline, and of
  the pixel data: for every row, read from a multiple of the row pitch after the offset
  of the subresource, and every pixel of the row, the bytes 2, 1 and 0 of the pixel. The
  data has three bytes for each pixel: byte \<open>k\<close> of pixel \<open>x\<close> of row \<open>y\<close> in the file is
  byte \<open>2 - k\<close> of the four bytes of that pixel in the mapping, so with a pitch of at
  least four times the width the bytes between the last pixel of a row and the next row
  are never read. When \<open>getMemoryType\<close> returns for the image, so does \<open>dumpImage\<close>, with
  these bytes as the file.
\<close>

theorem write_ppm_contents:
  assumes "unat (width sz) < 2 ^ 31" and "unat (height sz) < 2 ^ 31"
    and "0 < unat (height sz) \<longrightarrow>
           sl_offset layout + (unat (height sz) - 1) * sl_rowPitch layout + 4 * unat (width sz)
             \<le> length mem"
  shows "write_ppm sz layout mem =
     Inr (''P6'' @ [newline] @ to_string (unat (width sz)) @ [newline] @
          to_string (unat (height sz)) @ [newline] @ ''255'' @ [newline] @
          ppm_data mem (sl_offset layout) (sl_rowPitch layout) (unat (width sz)) (unat (height sz)))
   \<and> length (ppm_data mem (sl_offset layout) (sl_rowPitch layout) (unat (width sz)) (unat (height sz)))
       = unat (width sz) * unat (height sz) * 3
   \<and> (\<forall>y x k. y < unat (height sz) \<and> x < unat (width sz) \<and> k < 3 \<longrightarrow>
          ppm_data mem (sl_offset layout) (sl_rowPitch layout) (unat (width sz)) (unat (height sz))
            ! (3 * (y * unat (width sz) + x) + k)
          = mem ! (sl_offset layout + y * sl_rowPitch layout + 4 * x + (2 - k)))
   \<and> (\<forall>(a :: HeadlessAppVK) idx.
          m_size a = sz
          \<and> imageSubresourceLayout (driver (vk a)) (dump_image_info a) = layout
          \<and> mappedBytes (driver (vk a)) (Suc (nextHandle (vk a))) = mem
          \<and> getMemoryType a (imageMemoryTypeBits (driver (vk a)) (dump_image_info a))
                (VK_MEMORY_PROPERTY_HOST_VISIBLE_BIT OR VK_MEMORY_PROPERTY_HOST_COHERENT_BIT) = Inr idx
          \<longrightarrow> (\<exists>a'. dumpImage a =
                 Inr (a', ''P6'' @ [newline] @ to_string (unat (width sz)) @ [newline] @
                          to_string (unat (height sz)) @ [newline] @ ''255'' @ [newline] @
                          ppm_data mem (sl_offset layout) (sl_rowPitch layout)
                            (unat (width sz)) (unat (height sz)))))"
proof -
  let ?out = "''P6'' @ [newline] @ to_string (unat (width sz)) @ [newline] @
          to_string (unat (height sz)) @ [newline] @ ''255'' @ [newline] @
          ppm_data mem (sl_offset layout) (sl_rowPitch layout) (unat (width sz)) (unat (height sz))"
  have "write_rows mem True sz (sl_rowPitch layout) (sl_offset layout) 0 (ppm_header sz) =
     Inr (ppm_header sz @ ppm_data mem (sl_offset layout) (sl_rowPitch layout) (unat (width sz))
            (unat (height sz) - 0))"
    by (rule write_rows_swizzled [OF assms(1,2)]) (use assms(3) in simp_all)
  then have written: "write_ppm sz layout mem = Inr ?out"
    by (simp add: write_ppm_def Let_def ppm_header_def to_string_255)
  have returns: "\<exists>a'. dumpImage a = Inr (a', ?out)"
    if "m_size a = sz"
      and "imageSubresourceLayout (driver (vk a)) (dump_image_info a) = layout"
      and "mappedBytes (driver (vk a)) (Suc (nextHandle (vk a))) = mem"
      and "getMemoryType a (imageMemoryTypeBits (driver (vk a)) (dump_image_info a))
                (VK_MEMORY_PROPERTY_HOST_VISIBLE_BIT OR VK_MEMORY_PROPERTY_HOST_COHERENT_BIT) = Inr idx"
    for a :: HeadlessAppVK and idx
    using dumpImage_returns [OF that(4), of ?out] written that(1-3) by simp
  have dump: "\<forall>(a :: HeadlessAppVK) idx.
          m_size a = sz
          \<and> imageSubresourceLayout (driver (vk a)) (dump_image_info a) = layout
          \<and> mappedBytes (driver (vk a)) (Suc (nextHandle (vk a))) = mem
          \<and> getMemoryType a (imageMemoryTypeBits (driver (vk a)) (dump_image_info a))
                (VK_MEMORY_PROPERTY_HOST_VISIBLE_BIT OR VK_MEMORY_PROPERTY_HOST_COHERENT_BIT) = Inr idx
          \<longrightarrow> (\<exists>a'. dumpImage a = Inr (a', ?out))"
    using returns by blast
  have len: "length (ppm_data mem (sl_offset layout) (sl_rowPitch layout) (unat (width sz)) (unat (height sz)))
       = unat (width sz) * unat (height sz) * 3"
    by (rule length_ppm_data)
  have points: "\<forall>y x k. y < unat (height sz) \<and> x < unat (width sz) \<and> k < 3 \<longrightarrow>
          ppm_data mem (sl_offset layout) (sl_rowPitch layout) (unat (width sz)) (unat (height sz))
            ! (3 * (y * unat (width sz) + x) + k)
          = mem ! (sl_offset layout + y * sl_rowPitch layout + 4 * x + (2 - k))"
    by (intro allI impI, elim conjE) (rule nth_ppm_data)
  from written len points dump show ?thesis
    by (intro conjI)
qed

theorem write_ppm_contents_witness:
  "write_ppm \<lparr>width = 2, height = 2\<rparr> \<lparr>sl_offset = 2, sl_rowPitch = 10\<rparr> ''--abcdefgh!!ijklmnop!!''
     = Inr (''P6'' @ [newline] @ ''2'' @ [newline] @ ''2'' @ [newline] @ ''255'' @ [newline] @ ''cbagfekjionm'')"
proof -
  have two: "[0..<2] = [0, Suc 0]"
    by (simp add: numeral_2_eq_2)
  have data: "ppm_data ''--abcdefgh!!ijklmnop!!'' 2 10 2 2 = ''cbagfekjionm''"
    by (simp add: ppm_data_def ppm_row_def pixel_at_def two)
  have dec: "to_string 2 = ''2''"
    by (simp add: to_string.simps digit_def)
  from write_ppm_contents [of "\<lparr>width = 2, height = 2\<rparr>" "\<lparr>sl_offset = 2, sl_rowPitch = 10\<rparr>"
      "''--abcdefgh!!ijklmnop!!''"]
  show ?thesis
    by (simp add: data dec)
qed


end
